theory Spec2Isabelle
  imports Main
begin

section \<open>Arbitration protocol: the heartbeat lease (apiserver/dao/heartbeat_dao.py)\<close>

text \<open>
  A row of the table \<^verbatim>\<open>ai_task_client_heartbeats\<close>. The unique index on
  \<^verbatim>\<open>(user_id, client_id)\<close> makes the table a partial map from that pair to the row, so
  \<^verbatim>\<open>query(...).filter(...).first()\<close> is a lookup. The column \<^verbatim>\<open>last_sync_at\<close> is
  nullable, hence an option. A \<^verbatim>\<open>datetime\<close> has microsecond resolution: a point in
  time is an integer number of microseconds, a cooldown is an integer number of seconds.
\<close>

record ClientHeartbeat =
  instance_uuid :: string
  last_sync_at :: "int option"

type_synonym hb_table = "int \<times> int \<rightharpoonup> ClientHeartbeat"

abbreviation usec :: int where
  "usec \<equiv> 1000000"

text \<open>
  The second component of the returned pair: the empty string on success, and the
  message asking to wait \<open>remaining\<close> seconds on rejection.
\<close>

datatype hb_msg = NoMsg | WaitSeconds int

text \<open>
  Subtracting \<^verbatim>\<open>None\<close> from a \<^verbatim>\<open>datetime\<close> raises; the session is rolled back and
  the table is left as it was.
\<close>

datatype hb_error = TypeError

text \<open>
  \<^verbatim>\<open>update_heartbeat(user_id, client_id, instance_uuid, instance_change_cooldown_seconds)\<close>,
  with the table and the value of \<^verbatim>\<open>datetime.now()\<close> made explicit.
  \<^verbatim>\<open>time_since_last\<close> is \<open>(now - last) / 10^6\<close> seconds; in the rejecting branch
  \<open>cooldown - time_since_last\<close> is positive, where \<^verbatim>\<open>int(...)\<close> is the floor.
\<close>

definition update_heartbeat ::
  "hb_table \<Rightarrow> int \<Rightarrow> int \<Rightarrow> int \<Rightarrow> string \<Rightarrow> int \<Rightarrow> (hb_error + bool \<times> hb_msg) \<times> hb_table" where
  "update_heartbeat db now user_id client_id uuid cooldown =
     (case db (user_id, client_id) of
        None \<Rightarrow>
          (Inr (True, NoMsg),
           db((user_id, client_id) \<mapsto> \<lparr>instance_uuid = uuid, last_sync_at = Some now\<rparr>))
      | Some heartbeat \<Rightarrow>
          if instance_uuid heartbeat = uuid then
            (Inr (True, NoMsg),
             db((user_id, client_id) \<mapsto> heartbeat\<lparr>last_sync_at := Some now\<rparr>))
          else
            (case last_sync_at heartbeat of
               None \<Rightarrow> (Inl TypeError, db)
             | Some last_seen \<Rightarrow>
                 if now - last_seen \<ge> cooldown * usec then
                   (Inr (True, NoMsg),
                    db((user_id, client_id) \<mapsto>
                         heartbeat\<lparr>instance_uuid := uuid, last_sync_at := Some now\<rparr>))
                 else
                   (Inr (False, WaitSeconds ((cooldown * usec - (now - last_seen)) div usec)), db)))"

text \<open>
  \<^verbatim>\<open>check_instance_uuid_valid(user_id, client_id, instance_uuid, cooldown_seconds)\<close>:
  read-only. A \<^verbatim>\<open>datetime\<close> is always truthy, so \<^verbatim>\<open>if heartbeat.last_sync_at\<close> tests
  for \<^verbatim>\<open>None\<close> only; the comparison of two \<^verbatim>\<open>timedelta\<close>s is exact.
\<close>

definition check_instance_uuid_valid ::
  "hb_table \<Rightarrow> int \<Rightarrow> int \<Rightarrow> int \<Rightarrow> string \<Rightarrow> int \<Rightarrow> bool" where
  "check_instance_uuid_valid db now user_id client_id uuid cooldown_seconds =
     (case db (user_id, client_id) of
        None \<Rightarrow> True
      | Some heartbeat \<Rightarrow>
          if instance_uuid heartbeat = uuid then True
          else
            (case last_sync_at heartbeat of
               Some last_seen \<Rightarrow> if now - last_seen < cooldown_seconds * usec then False else True
             | None \<Rightarrow> True))"

text \<open>A run of heartbeats of one instance, at the given times, threading the table.\<close>

fun heartbeats ::
  "hb_table \<Rightarrow> int \<Rightarrow> int \<Rightarrow> string \<Rightarrow> int \<Rightarrow> int list \<Rightarrow> (hb_error + bool \<times> hb_msg) list \<times> hb_table" where
  "heartbeats db user_id client_id uuid cooldown [] = ([], db)"
| "heartbeats db user_id client_id uuid cooldown (now # nows) =
     (let (r, db') = update_heartbeat db now user_id client_id uuid cooldown;
          (rs, db'') = heartbeats db' user_id client_id uuid cooldown nows
      in (r # rs, db''))"

definition stored_token :: "hb_table \<Rightarrow> int \<Rightarrow> int \<Rightarrow> string option" where
  "stored_token db user_id client_id = map_option instance_uuid (db (user_id, client_id))"

subsection \<open>The gate on authenticated requests (apiserver/routes/auth_plugin.py)\<close>

text \<open>
  The headers \<^verbatim>\<open>login_required\<close> reads. \<^verbatim>\<open>headers.get\<close> gives \<^verbatim>\<open>None\<close> for a
  missing header; a test \<^verbatim>\<open>if h:\<close> fails for \<^verbatim>\<open>None\<close> and for the empty string.
\<close>

record flask_request =
  x_client_secret :: "string option"
  x_instance_uuid :: "string option"
  x_client_id :: "string option"

definition truthy :: "string option \<Rightarrow> bool" where
  "truthy h = (case h of None \<Rightarrow> False | Some s \<Rightarrow> s \<noteq> [])"

text \<open>The messages of the 401 answers: no secret, no user for the secret, the check raised.\<close>

datatype auth_msg = MissingSecret | InvalidSecret | SecretCheckFailed

text \<open>
  What a route returns: a 401, the 409 of the instance check, a 404, the 500 of an
  exception nothing catches, or the result of its handler, which runs for the
  authenticated user.
\<close>

datatype 'r response = Unauthorized auth_msg | Conflict409 | NotFound404 | ServerError500 | Handler 'r

text \<open>
  \<^verbatim>\<open>login_required(f)\<close>. Taken as parameters: \<open>get_user_by_secret\<close> (the lookup of the
  user id by secret, the left injection when it raises), \<open>py_int\<close> (Python's
  \<^verbatim>\<open>int(str)\<close>, with \<^verbatim>\<open>None\<close> for \<^verbatim>\<open>ValueError\<close>), \<open>token_auth\<close> (the fall-back to
  Bearer-token authentication, taken when no secret is sent) and the handler \<open>f\<close>, the
  left injection when it raises. The table of leases is \<^verbatim>\<open>None\<close> when the query of the
  instance check raises. The instance check is called without a cooldown, so with the
  default of 60 seconds. Everything from the lookup to the call of the handler is inside
  one \<^verbatim>\<open>try\<close>, whose \<^verbatim>\<open>except Exception\<close> answers 401. The update of the last access
  time has no effect on the response and is left out.
\<close>

definition login_required ::
  "(string \<Rightarrow> unit + int option) \<Rightarrow> (string \<Rightarrow> int option) \<Rightarrow> (flask_request \<Rightarrow> 'r response) \<Rightarrow>
   (int \<Rightarrow> unit + 'r) \<Rightarrow> hb_table option \<Rightarrow> int \<Rightarrow> flask_request \<Rightarrow> 'r response" where
  "login_required get_user_by_secret py_int token_auth f db now req =
     (if truthy (x_client_secret req) then
        (case get_user_by_secret (the (x_client_secret req)) of
           Inl raised \<Rightarrow> Unauthorized SecretCheckFailed
         | Inr None \<Rightarrow> Unauthorized InvalidSecret
         | Inr (Some user_id) \<Rightarrow>
             (case (if truthy (x_instance_uuid req) \<and> truthy (x_client_id req) then
                      (case py_int (the (x_client_id req)) of
                         Some client_id \<Rightarrow>
                           (case db of
                              None \<Rightarrow> Some (Unauthorized SecretCheckFailed)
                            | Some leases \<Rightarrow>
                                if \<not> check_instance_uuid_valid leases now user_id client_id
                                         (the (x_instance_uuid req)) 60
                                then Some Conflict409
                                else None)
                       | None \<Rightarrow> None)
                    else None) of
                Some refused \<Rightarrow> refused
              | None \<Rightarrow>
                  (case f user_id of
                     Inl raised \<Rightarrow> Unauthorized SecretCheckFailed
                   | Inr result \<Rightarrow> Handler result)))
      else token_auth req)"

text \<open>
  The two routes of apiserver/routes/client.py that are not under \<^verbatim>\<open>login_required\<close>
  and check the secret themselves: \<^verbatim>\<open>get_client_config_api\<close>
  (\<^verbatim>\<open>GET /api/client/<id>/config\<close>) and \<^verbatim>\<open>update_repo_default_branch_api\<close>
  (\<^verbatim>\<open>PATCH /api/client/<id>/repos/<id>/default-branch\<close>). They read no other header
  and no lease. Taken as parameters: the lookup of the user, the lookup of the client
  the user may see, and what the route does with that client and answers (\<open>config\<close>,
  \<open>patch\<close>), each with the left injection when it raises; nothing is caught, so an
  exception is the 500 of the framework.
\<close>

definition get_client_config_api ::
  "(string \<Rightarrow> unit + int option) \<Rightarrow> (int \<Rightarrow> int \<Rightarrow> unit + 'c option) \<Rightarrow> ('c \<Rightarrow> unit + 'r) \<Rightarrow>
   flask_request \<Rightarrow> int \<Rightarrow> 'r response" where
  "get_client_config_api get_user_by_secret get_client_with_permission config req client_id =
     (if \<not> truthy (x_client_secret req) then Unauthorized MissingSecret
      else
        (case get_user_by_secret (the (x_client_secret req)) of
           Inl raised \<Rightarrow> ServerError500
         | Inr None \<Rightarrow> Unauthorized InvalidSecret
         | Inr (Some user) \<Rightarrow>
             (case get_client_with_permission client_id user of
                Inl raised \<Rightarrow> ServerError500
              | Inr None \<Rightarrow> NotFound404
              | Inr (Some client) \<Rightarrow>
                  (case config client of
                     Inl raised \<Rightarrow> ServerError500
                   | Inr result \<Rightarrow> Handler result))))"

definition update_repo_default_branch_api ::
  "(string \<Rightarrow> unit + int option) \<Rightarrow> (int \<Rightarrow> int \<Rightarrow> unit + 'c option) \<Rightarrow> ('c \<Rightarrow> unit + 'r) \<Rightarrow>
   flask_request \<Rightarrow> int \<Rightarrow> 'r response" where
  "update_repo_default_branch_api get_user_by_secret get_client_with_permission patch req client_id =
     (if \<not> truthy (x_client_secret req) then Unauthorized MissingSecret
      else
        (case get_user_by_secret (the (x_client_secret req)) of
           Inl raised \<Rightarrow> ServerError500
         | Inr None \<Rightarrow> Unauthorized InvalidSecret
         | Inr (Some user) \<Rightarrow>
             (case get_client_with_permission client_id user of
                Inl raised \<Rightarrow> ServerError500
              | Inr None \<Rightarrow> NotFound404
              | Inr (Some client) \<Rightarrow>
                  (case patch client of
                     Inl raised \<Rightarrow> ServerError500
                   | Inr result \<Rightarrow> Handler result))))"

text \<open>A lease used in the examples: client 42 of user 1, held by \<open>u1\<close> since time 0.\<close>

definition demo_lease :: hb_table where
  "demo_lease = Map.empty((1, 42) \<mapsto> \<lparr>instance_uuid = ''u1'', last_sync_at = Some 0\<rparr>)"

text \<open>
  Scenario B: the lease of client 42 after the heartbeat of \<open>u1\<close> at time 0.
\<close>

definition scenario_B_lease :: "int \<Rightarrow> hb_table" where
  "scenario_B_lease owner = snd (update_heartbeat Map.empty 0 owner 42 ''u1'' 60)"

text \<open>
  A request of the worker of user 1, as instance \<open>u2\<close> of client 42, with the
  parameters of the routes it is checked under.
\<close>

definition demo_users :: "string \<Rightarrow> unit + int option" where
  "demo_users secret = (if secret = ''s3cret'' then Inr (Some 1) else Inr None)"

definition demo_py_int :: "string \<Rightarrow> int option" where
  "demo_py_int s = (if s = ''42'' then Some 42 else None)"

definition demo_token_auth :: "flask_request \<Rightarrow> int response" where
  "demo_token_auth req = Unauthorized InvalidSecret"

definition demo_handler :: "int \<Rightarrow> unit + int" where
  "demo_handler user_id = Inr user_id"

definition demo_clients :: "int \<Rightarrow> int \<Rightarrow> unit + int option" where
  "demo_clients client_id user = (if client_id = 42 \<and> user = 1 then Inr (Some 42) else Inr None)"

definition demo_config :: "int \<Rightarrow> unit + int" where
  "demo_config client = Inr client"

definition demo_request :: flask_request where
  "demo_request = \<lparr>x_client_secret = Some ''s3cret'', x_instance_uuid = Some ''u2'',
                   x_client_id = Some ''42''\<rparr>"

section \<open>Flow update of a task (apiserver/dao/task_dao.py, service/task_service.py)\<close>

text \<open>
  A row of the table \<^verbatim>\<open>ai_task_tasks\<close>, with the columns the flow update reads or
  writes; the primary key \<^verbatim>\<open>id\<close> is the key of the table. The \<^verbatim>\<open>flow\<close> column holds
  a JSON document, kept abstract as \<open>'f\<close>; both \<^verbatim>\<open>flow\<close> and \<^verbatim>\<open>flow_status\<close> are
  nullable.
\<close>

record 'f TaskRow =
  task_user_id :: int
  task_flow :: "'f option"
  task_flow_status :: "string option"

type_synonym 'f task_table = "int \<rightharpoonup> 'f TaskRow"

text \<open>An entry of the dictionary \<^verbatim>\<open>update_data\<close>: a column and its new value.\<close>

datatype 'f assignment = SetFlow 'f | SetFlowStatus string

fun assign :: "'f assignment \<Rightarrow> 'f TaskRow \<Rightarrow> 'f TaskRow" where
  "assign (SetFlow v) row = row\<lparr>task_flow := Some v\<rparr>"
| "assign (SetFlowStatus v) row = row\<lparr>task_flow_status := Some v\<rparr>"

definition build_update_data :: "'f option \<Rightarrow> string option \<Rightarrow> 'f assignment list" where
  "build_update_data flow flow_status =
     (case flow of None \<Rightarrow> [] | Some v \<Rightarrow> [SetFlow v]) @
     (case flow_status of None \<Rightarrow> [] | Some v \<Rightarrow> [SetFlowStatus v])"

text \<open>
  \<^verbatim>\<open>update_task_flow(task_id, user_id, flow, flow_status)\<close> of the data access layer
  (apiserver/dao/task_dao.py): the assignments are applied to the rows with that id and
  that owner, and the result says whether a row matched.
\<close>

definition dao_update_task_flow ::
  "'f task_table \<Rightarrow> int \<Rightarrow> int \<Rightarrow> 'f option \<Rightarrow> string option \<Rightarrow> bool \<times> 'f task_table" where
  "dao_update_task_flow db task_id user_id flow flow_status =
     (let update_data = build_update_data flow flow_status in
      if update_data = [] then (True, db)
      else
        (case db task_id of
           Some row \<Rightarrow>
             if task_user_id row = user_id
             then (True, db(task_id \<mapsto> fold assign update_data row))
             else (False, db)
         | None \<Rightarrow> (False, db)))"

text \<open>
  \<^verbatim>\<open>update_flow(task_id, user_id, flow, flow_status)\<close> of the service layer
  (apiserver/service/task_service.py), which the route \<^verbatim>\<open>PUT /api/task/<id>/flow\<close>
  calls with \<^verbatim>\<open>data.get('flow')\<close> and \<^verbatim>\<open>data.get('flow_status')\<close>. The structural
  check of the document (an object whose \<^verbatim>\<open>nodes\<close>, if present, is a list) is the
  parameter \<open>valid_flow\<close>. The result of the data access layer is not looked at.
\<close>

datatype service_error = TaskNotFoundException | TaskValidationException

definition dao_get_task_by_id :: "'f task_table \<Rightarrow> int \<Rightarrow> int \<Rightarrow> 'f TaskRow option" where
  "dao_get_task_by_id db task_id user_id =
     (case db task_id of
        Some row \<Rightarrow> if task_user_id row = user_id then Some row else None
      | None \<Rightarrow> None)"

definition update_flow ::
  "('f \<Rightarrow> bool) \<Rightarrow> 'f task_table \<Rightarrow> int \<Rightarrow> int \<Rightarrow> 'f option \<Rightarrow> string option \<Rightarrow>
   (service_error + unit) \<times> 'f task_table" where
  "update_flow valid_flow db task_id user_id flow flow_status =
     (if dao_get_task_by_id db task_id user_id = None then (Inl TaskNotFoundException, db)
      else if (case flow of Some v \<Rightarrow> \<not> valid_flow v | None \<Rightarrow> False)
        then (Inl TaskValidationException, db)
      else if (case flow_status of Some v \<Rightarrow> length v > 32 | None \<Rightarrow> False)
        then (Inl TaskValidationException, db)
      else (Inr (), snd (dao_update_task_flow db task_id user_id flow flow_status)))"

text \<open>A table with one task of user 1, used in the examples.\<close>

definition demo_tasks :: "string task_table" where
  "demo_tasks = Map.empty(7 \<mapsto> \<lparr>task_user_id = 1, task_flow = Some ''{nodes: []}'',
                                  task_flow_status = Some ''pending''\<rparr>)"

section \<open>Repository sync engine (clients/utils/git_utils.py)\<close>

text \<open>
  The git commands the two protocols run, by their arguments. A ref \<^verbatim>\<open>origin/<b>\<close> and
  the range of \<^verbatim>\<open>rev-list\<close> are passed as the strings the code builds.
\<close>

datatype git_cmd =
    Fetch
  | LsRemoteHeads string
  | Checkout string
  | ResetHard string
  | BranchList string
  | BranchDelete string
  | CheckoutNew string
  | Rebase string
  | RebaseAbort
  | PushForce string
  | StatusPorcelain
  | AddAll
  | Commit string
  | RevParseHead
  | Push string
  | RevListCount string

text \<open>
  What a stage does to the outside, in order: a git subprocess, the copy of the mirror
  cache into the working copy, a prompt given to the agent.
\<close>

datatype event = Git git_cmd | CopyTree | AgentPrompt

text \<open>
  \<^verbatim>\<open>diff_message\<close>: empty, or the sentence that \<open>ahead\<close> commits are to be merged into
  the default branch.
\<close>

datatype diff_message = NoDiff | CommitsAhead int string

record GitResult =
  success :: bool
  message :: string
  diff_message :: diff_message

definition make_result :: "bool \<Rightarrow> string \<Rightarrow> GitResult" where
  "make_result ok msg = \<lparr>success = ok, message = msg, diff_message = NoDiff\<rparr>"

text \<open>
  What the agent's \<^verbatim>\<open>run_prompt(..., json_parse=True)\<close> gives back: a failure with its
  text, a reply that parsed to a JSON object (with the truth value of
  \<^verbatim>\<open>reply.get('success', False)\<close> and the text of \<^verbatim>\<open>reply.get('msg', ...)\<close>), or a
  reply that parsed to some other JSON value, on which \<^verbatim>\<open>reply.get\<close> raises.
\<close>

datatype agent_outcome = AgentFailed string | ReplyObject bool string | ReplyOther

text \<open>
  The environment of a working copy, over a state \<open>'w\<close> of the outside world:
  \<open>exec_git\<close> is the subprocess behind \<^verbatim>\<open>_run_git_command\<close> (exit status 0 or not, and
  the stripped output or error text; a timeout is a failure with its text),
  \<open>repo_dir_exists\<close> and \<open>git_dir_exists\<close> are the two \<^verbatim>\<open>os.path.exists\<close> tests,
  \<open>copy_tree\<close> is \<^verbatim>\<open>shutil.copytree\<close> from the mirror cache (the text of the exception
  when it raises), \<open>run_agent\<close> is the agent on the conflict prompt, and \<open>parse_int\<close> is
  Python's \<^verbatim>\<open>int(str)\<close>, \<^verbatim>\<open>None\<close> for \<^verbatim>\<open>ValueError\<close>.
\<close>

record 'w environment =
  exec_git :: "git_cmd \<Rightarrow> 'w \<Rightarrow> (bool \<times> string) \<times> 'w"
  repo_dir_exists :: "'w \<Rightarrow> bool"
  git_dir_exists :: "'w \<Rightarrow> bool"
  copy_tree :: "'w \<Rightarrow> string option \<times> 'w"
  run_agent :: "'w \<Rightarrow> agent_outcome \<times> 'w"
  parse_int :: "string \<Rightarrow> int option"

text \<open>The events so far, and the outside world.\<close>

type_synonym 'w run_state = "event list \<times> 'w"

definition run_git_command ::
  "'w environment \<Rightarrow> git_cmd \<Rightarrow> 'w run_state \<Rightarrow> GitResult \<times> 'w run_state" where
  "run_git_command E cmd st =
     (case exec_git E cmd (snd st) of
        ((ok, msg), w') \<Rightarrow> (make_result ok msg, (fst st @ [Git cmd], w')))"

subsection \<open>Strings\<close>

text \<open>
  \<^verbatim>\<open>needle in haystack\<close>, \<^verbatim>\<open>str.lower\<close> and \<^verbatim>\<open>str.strip\<close> on ASCII text.
\<close>

fun starts_with :: "string \<Rightarrow> string \<Rightarrow> bool" where
  "starts_with [] s = True"
| "starts_with (c # cs) [] = False"
| "starts_with (c # cs) (d # ds) = (c = d \<and> starts_with cs ds)"

fun contains :: "string \<Rightarrow> string \<Rightarrow> bool" where
  "contains needle [] = (needle = [])"
| "contains needle (d # ds) = (starts_with needle (d # ds) \<or> contains needle ds)"

definition lower_char :: "char \<Rightarrow> char" where
  "lower_char c =
     (case map_of (zip ''ABCDEFGHIJKLMNOPQRSTUVWXYZ'' ''abcdefghijklmnopqrstuvwxyz'') c of
        Some l \<Rightarrow> l
      | None \<Rightarrow> c)"

definition lower :: "string \<Rightarrow> string" where
  "lower s = map lower_char s"

definition is_space :: "char \<Rightarrow> bool" where
  "is_space c = (c \<in> set [CHR '' '', CHR 0x09, CHR 0x0A, CHR 0x0B, CHR 0x0C, CHR 0x0D,
                           CHR 0x1C, CHR 0x1D, CHR 0x1E, CHR 0x1F])"

definition strip :: "string \<Rightarrow> string" where
  "strip s = rev (dropWhile is_space (rev (dropWhile is_space s)))"

subsection \<open>Sync of the development branch and rebase\<close>

text \<open>
  The messages of the results are the code's, with the Chinese wording given in English;
  \<^verbatim>\<open>rebase conflict\<close> is the code's own literal, and no other literal of the function
  contains the word \<open>conflict\<close>.
\<close>

definition check_remote_branch_exists ::
  "'w environment \<Rightarrow> string \<Rightarrow> 'w run_state \<Rightarrow> bool \<times> 'w run_state" where
  "check_remote_branch_exists E branch st =
     (case run_git_command E (LsRemoteHeads branch) st of
        (result, st') \<Rightarrow> (success result \<and> contains branch (message result), st'))"

definition check_local_branch_exists ::
  "'w environment \<Rightarrow> string \<Rightarrow> 'w run_state \<Rightarrow> bool \<times> 'w run_state" where
  "check_local_branch_exists E branch st =
     (case run_git_command E (BranchList branch) st of
        (result, st') \<Rightarrow> (success result \<and> contains branch (message result), st'))"

text \<open>
  The branch of step 2 taken when the remote has the development branch: check it out
  and reset it to the remote one. \<^verbatim>\<open>None\<close> when the step went through, the result
  returned otherwise.
\<close>

definition checkout_remote_branch ::
  "'w environment \<Rightarrow> string \<Rightarrow> 'w run_state \<Rightarrow> GitResult option \<times> 'w run_state" where
  "checkout_remote_branch E dev_branch st =
     (case run_git_command E (Checkout dev_branch) st of
        (checkout_result, st1) \<Rightarrow>
          if \<not> success checkout_result then
            (Some (make_result False
               (''checkout of branch '' @ dev_branch @ '' failed: '' @ message checkout_result)),
             st1)
          else
            (case run_git_command E (ResetHard (''origin/'' @ dev_branch)) st1 of
               (reset_result, st2) \<Rightarrow>
                 if \<not> success reset_result then
                   (Some (make_result False
                      (''sync to the remote branch failed: '' @ message reset_result)), st2)
                 else (None, st2)))"

text \<open>
  The other branch of step 2: check out and reset the default branch, delete a local
  branch of the same name (a failure of the deletion is only logged), create the
  development branch.
\<close>

definition create_branch_from_default ::
  "'w environment \<Rightarrow> string \<Rightarrow> string \<Rightarrow> 'w run_state \<Rightarrow> GitResult option \<times> 'w run_state" where
  "create_branch_from_default E dev_branch default_branch st =
     (case run_git_command E (Checkout default_branch) st of
        (checkout_default_result, st1) \<Rightarrow>
          if \<not> success checkout_default_result then
            (Some (make_result False
               (''checkout of default branch '' @ default_branch @ '' failed: '' @
                message checkout_default_result)), st1)
          else
            (case run_git_command E (ResetHard (''origin/'' @ default_branch)) st1 of
               (reset_default_result, st2) \<Rightarrow>
                 if \<not> success reset_default_result then
                   (Some (make_result False
                      (''sync of the default branch failed: '' @ message reset_default_result)),
                    st2)
                 else
                   (case check_local_branch_exists E dev_branch st2 of
                      (local_branch_exists, st3) \<Rightarrow>
                        (case (if local_branch_exists
                               then snd (run_git_command E (BranchDelete dev_branch) st3)
                               else st3) of
                           st4 \<Rightarrow>
                             (case run_git_command E (CheckoutNew dev_branch) st4 of
                                (checkout_b_result, st5) \<Rightarrow>
                                  if \<not> success checkout_b_result then
                                    (Some (make_result False
                                       (''creation of branch '' @ dev_branch @ '' failed: '' @
                                        message checkout_b_result)), st5)
                                  else (None, st5))))))"

text \<open>
  Steps 3 and 4: the rebase onto \<^verbatim>\<open>origin/<default>\<close>; when it fails, the abort (whose
  own failure is only logged) and the result \<^verbatim>\<open>rebase conflict\<close>; when it succeeds, the
  forced push.
\<close>

definition rebase_and_push ::
  "'w environment \<Rightarrow> string \<Rightarrow> string \<Rightarrow> 'w run_state \<Rightarrow> GitResult \<times> 'w run_state" where
  "rebase_and_push E dev_branch default_branch st =
     (case run_git_command E (Rebase (''origin/'' @ default_branch)) st of
        (rebase_result, st1) \<Rightarrow>
          if \<not> success rebase_result then
            (case run_git_command E RebaseAbort st1 of
               (abort_result, st2) \<Rightarrow> (make_result False ''rebase conflict'', st2))
          else
            (case run_git_command E (PushForce dev_branch) st1 of
               (push_result, st2) \<Rightarrow>
                 if \<not> success push_result then
                   (make_result False (''push failed: '' @ message push_result), st2)
                 else
                   (make_result True
                      (''branch '' @ dev_branch @ '' rebased and pushed to the remote''), st2)))"

text \<open>
  \<^verbatim>\<open>sync_and_rebase_branch(repo_dir, dev_branch, default_branch)\<close>. No step inside its
  \<^verbatim>\<open>try\<close> raises: \<^verbatim>\<open>_run_git_command\<close> turns every exception into a failed result.
\<close>

definition sync_and_rebase_branch ::
  "'w environment \<Rightarrow> string \<Rightarrow> string \<Rightarrow> string \<Rightarrow> 'w run_state \<Rightarrow> GitResult \<times> 'w run_state" where
  "sync_and_rebase_branch E repo_dir dev_branch default_branch st =
     (if \<not> repo_dir_exists E (snd st) then
        (make_result False (''repository directory does not exist: '' @ repo_dir), st)
      else if \<not> git_dir_exists E (snd st) then
        (make_result False (''directory is not a valid Git repository: '' @ repo_dir), st)
      else
        (case run_git_command E Fetch st of
           (fetch_result, st1) \<Rightarrow>
             if \<not> success fetch_result then
               (make_result False (''fetch of the remote failed: '' @ message fetch_result), st1)
             else
               (case check_remote_branch_exists E dev_branch st1 of
                  (remote_branch_exists, st2) \<Rightarrow>
                    (case (if remote_branch_exists
                           then checkout_remote_branch E dev_branch st2
                           else create_branch_from_default E dev_branch default_branch st2) of
                       (Some failure, st3) \<Rightarrow> (failure, st3)
                     | (None, st3) \<Rightarrow> rebase_and_push E dev_branch default_branch st3))))"

text \<open>
  \<^verbatim>\<open>CodeDevelopNode._sync_repo(git_repo)\<close> (clients/worker/code_develop_node.py):
  \<^verbatim>\<open>None\<close> when it returns, the text of the exception when it raises.
\<close>

definition sync_repo ::
  "'w environment \<Rightarrow> string \<Rightarrow> string \<Rightarrow> string \<Rightarrow> 'w run_state \<Rightarrow> string option \<times> 'w run_state" where
  "sync_repo E work_repo_dir dev_branch default_branch st =
     (case (if \<not> repo_dir_exists E (snd st)
            then (case copy_tree E (snd st) of (r, w') \<Rightarrow> (r, (fst st @ [CopyTree], w')))
            else (None, st)) of
        (Some raised, st1) \<Rightarrow> (Some raised, st1)
      | (None, st1) \<Rightarrow>
          (case sync_and_rebase_branch E work_repo_dir dev_branch default_branch st1 of
             (git_result, st2) \<Rightarrow>
               if success git_result then (None, st2)
               else if \<not> contains ''conflict'' (lower (message git_result)) then
                 (Some (work_repo_dir @ '' sync and rebase failed: '' @ message git_result), st2)
               else
                 (case run_agent E (snd st2) of
                    (outcome, w3) \<Rightarrow>
                      (case outcome of
                         AgentFailed reply \<Rightarrow>
                           Some (''agent failed to handle the rebase conflict: '' @ reply)
                       | ReplyObject ok msg \<Rightarrow>
                           if \<not> ok then Some (''resolving the conflict failed: '' @ msg)
                           else None
                       | ReplyOther \<Rightarrow>
                           Some ''AttributeError: object has no attribute get'',
                       (fst st2 @ [AgentPrompt], w3)))))"

subsection \<open>Commit and push\<close>

text \<open>
  \<^verbatim>\<open>_check_diff_with_default_branch(repo_dir, default_branch)\<close>: the count of commits
  the current branch is ahead of \<^verbatim>\<open>origin/<default>\<close>. \<^verbatim>\<open>int(...)\<close> raises
  \<^verbatim>\<open>ValueError\<close> on text that is no number: the left injection, with the text.
\<close>

definition check_diff_with_default_branch ::
  "'w environment \<Rightarrow> string \<Rightarrow> 'w run_state \<Rightarrow> (string + diff_message) \<times> 'w run_state" where
  "check_diff_with_default_branch E default_branch st =
     (case run_git_command E RevParseHead st of
        (branch_result, st1) \<Rightarrow>
          if \<not> success branch_result then (Inr NoDiff, st1)
          else
            (let current_branch = strip (message branch_result) in
             if current_branch = default_branch then (Inr NoDiff, st1)
             else
               (case run_git_command E
                       (RevListCount (''origin/'' @ default_branch @ ''..'' @ current_branch)) st1 of
                  (diff_stat_result, st2) \<Rightarrow>
                    if success diff_stat_result then
                      (case parse_int E (strip (message diff_stat_result)) of
                         None \<Rightarrow>
                           (Inl (''invalid literal for int(): '' @ strip (message diff_stat_result)),
                            st2)
                       | Some ahead \<Rightarrow>
                           if ahead = 0 then (Inr NoDiff, st2)
                           else (Inr (CommitsAhead ahead default_branch), st2))
                    else (Inr NoDiff, st2))))"

text \<open>
  Steps 2 to 6 of \<^verbatim>\<open>commit_and_push_changes\<close>, taken when the status lists changes.
  An exception of the count is caught by the function's \<^verbatim>\<open>except Exception\<close> and
  becomes a failed result.
\<close>

definition stage_commit_push ::
  "'w environment \<Rightarrow> string \<Rightarrow> string \<Rightarrow> 'w run_state \<Rightarrow> GitResult \<times> 'w run_state" where
  "stage_commit_push E commit_msg default_branch st =
     (case run_git_command E AddAll st of
        (add_result, st1) \<Rightarrow>
          if \<not> success add_result then
            (make_result False (''staging the changes failed: '' @ message add_result), st1)
          else
            (case run_git_command E (Commit commit_msg) st1 of
               (commit_result, st2) \<Rightarrow>
                 if \<not> success commit_result then
                   (make_result False (''commit failed: '' @ message commit_result), st2)
                 else
                   (case run_git_command E RevParseHead st2 of
                      (branch_result, st3) \<Rightarrow>
                        if \<not> success branch_result then
                          (make_result False
                             (''reading the current branch failed: '' @ message branch_result), st3)
                        else
                          (let current_branch = strip (message branch_result) in
                           case run_git_command E (Push current_branch) st3 of
                             (push_result, st4) \<Rightarrow>
                               if \<not> success push_result then
                                 (make_result False
                                    (''push failed: '' @ message push_result), st4)
                               else
                                 (case check_diff_with_default_branch E default_branch st4 of
                                    (Inl raised, st5) \<Rightarrow>
                                      (make_result False (''operation failed: '' @ raised), st5)
                                  | (Inr diff, st5) \<Rightarrow>
                                      (\<lparr>success = True,
                                        message = ''committed and pushed: '' @ current_branch,
                                        diff_message = diff\<rparr>, st5))))))"

text \<open>
  \<^verbatim>\<open>commit_and_push_changes(repo_dir, commit_msg, default_branch)\<close>.
\<close>

definition commit_and_push_changes ::
  "'w environment \<Rightarrow> string \<Rightarrow> string \<Rightarrow> string \<Rightarrow> 'w run_state \<Rightarrow> GitResult \<times> 'w run_state" where
  "commit_and_push_changes E repo_dir commit_msg default_branch st =
     (if \<not> repo_dir_exists E (snd st) then
        (make_result False (''repository directory does not exist: '' @ repo_dir), st)
      else if \<not> git_dir_exists E (snd st) then
        (make_result False (''directory is not a valid Git repository: '' @ repo_dir), st)
      else
        (case run_git_command E StatusPorcelain st of
           (status_result, st1) \<Rightarrow>
             if \<not> success status_result then
               (make_result False
                  (''checking the repository status failed: '' @ message status_result), st1)
             else if strip (message status_result) = [] then
               (case check_diff_with_default_branch E default_branch st1 of
                  (Inl raised, st2) \<Rightarrow>
                    (make_result False (''operation failed: '' @ raised), st2)
                | (Inr diff, st2) \<Rightarrow>
                    (\<lparr>success = True, message = ''nothing to commit'', diff_message = diff\<rparr>,
                     st2))
             else stage_commit_push E commit_msg default_branch st1))"

text \<open>Whether an event stages, commits or pushes.\<close>

fun writes :: "event \<Rightarrow> bool" where
  "writes (Git AddAll) = True"
| "writes (Git (Commit m)) = True"
| "writes (Git (Push b)) = True"
| "writes (Git (PushForce b)) = True"
| "writes e = False"

subsection \<open>A small working copy for the examples\<close>

text \<open>
  A working copy on branch \<open>ai_7\<close> reduced to what the protocols observe: whether the
  tree has uncommitted changes, how many commits the branch is ahead, whether the rebase
  stops on conflicts, and the error of a failing fetch. A commit cleans the tree and adds
  to the count.
\<close>

record repo =
  tree_dirty :: bool
  commits_ahead :: int
  rebase_stops :: bool
  fetch_error :: "string option"

definition show_count :: "int \<Rightarrow> string" where
  "show_count n = (if n = 0 then ''0'' else if n = 1 then ''1'' else ''2'')"

fun demo_git :: "git_cmd \<Rightarrow> repo \<Rightarrow> (bool \<times> string) \<times> repo" where
  "demo_git StatusPorcelain w = ((True, if tree_dirty w then ''M develop.md'' else []), w)"
| "demo_git (Commit m) w =
     ((True, []), w\<lparr>tree_dirty := False, commits_ahead := commits_ahead w + 1\<rparr>)"
| "demo_git RevParseHead w = ((True, ''ai_7''), w)"
| "demo_git (RevListCount r) w = ((True, show_count (commits_ahead w)), w)"
| "demo_git Fetch w =
     (case fetch_error w of None \<Rightarrow> ((True, []), w) | Some e \<Rightarrow> ((False, e), w))"
| "demo_git (LsRemoteHeads b) w = ((True, ''5f3a9c refs/heads/'' @ b), w)"
| "demo_git (Rebase u) w =
     (if rebase_stops w then ((False, ''could not apply 5f3a9c''), w) else ((True, []), w))"
| "demo_git c w = ((True, []), w)"

definition demo_int :: "string \<Rightarrow> int option" where
  "demo_int s = (if s = ''0'' then Some 0 else if s = ''1'' then Some 1
                 else if s = ''2'' then Some 2 else None)"

definition demo_agent :: "repo \<Rightarrow> agent_outcome \<times> repo" where
  "demo_agent w = (ReplyObject False ''unresolved'', w)"

definition demo_env :: "repo environment" where
  "demo_env = \<lparr>exec_git = demo_git, repo_dir_exists = (\<lambda>w. True), git_dir_exists = (\<lambda>w. True),
                copy_tree = (\<lambda>w. (None, w)), run_agent = demo_agent, parse_int = demo_int\<rparr>"

definition demo_repo :: repo where
  "demo_repo = \<lparr>tree_dirty = True, commits_ahead = 0, rebase_stops = False, fetch_error = None\<rparr>"

definition demo_conflict_repo :: repo where
  "demo_conflict_repo =
     \<lparr>tree_dirty = False, commits_ahead = 1, rebase_stops = True, fetch_error = None\<rparr>"

definition demo_fetch_failure_repo :: repo where
  "demo_fetch_failure_repo =
     \<lparr>tree_dirty = False, commits_ahead = 1, rebase_stops = False,
      fetch_error = Some ''error: some local refs could not be updated; try running git remote prune origin to remove any old, conflicting branches''\<rparr>"

text \<open>An agent that replies success without touching the working copy.\<close>

definition demo_agreeing_agent :: "repo \<Rightarrow> agent_outcome \<times> repo" where
  "demo_agreeing_agent w = (ReplyObject True ''done'', w)"

section \<open>Transport client (clients/rpc/apiserver_rpc.py)\<close>

text \<open>
  A decoded JSON value. \<^verbatim>\<open>d.get(k, default)\<close> on an object is \<open>map_of\<close> on its
  members.
\<close>

datatype json =
    JNull
  | JBool bool
  | JNum int
  | JStr string
  | JArr "json list"
  | JObj "(string \<times> json) list"

text \<open>The endpoints the worker calls, by the values their paths are built from.\<close>

datatype endpoint = TaskList | TaskDetail int | TaskFlow int | ClientConfig int

record rpc_request =
  http_method :: string
  path :: endpoint
  json_data :: "json option"
  params :: "(string \<times> json) list option"

text \<open>
  What one \<^verbatim>\<open>requests.request\<close> comes to: a \<^verbatim>\<open>RequestException\<close> (connection
  refused, timeout, ...) with its text, or a response with its status code and its body,
  \<^verbatim>\<open>None\<close> when \<^verbatim>\<open>response.json()\<close> raises.
\<close>

datatype http_outcome = RequestException string | HttpResponse int "json option"

text \<open>
  The message of an \<^verbatim>\<open>ApiException\<close>: the value of the body's \<^verbatim>\<open>message\<close>, the default
  text when the body has none, the note that the body is no JSON, the note carrying the
  text of the connection error, and the text of \<^verbatim>\<open>get_task\<close> for a missing task.
\<close>

datatype api_message =
    ServerMessage json
  | RequestFailed
  | NotJson
  | RequestError string
  | TaskMissing

text \<open>
  The exceptions of the client: the typed \<^verbatim>\<open>ApiException(code, message)\<close>, the
  \<^verbatim>\<open>AttributeError\<close> of \<^verbatim>\<open>.get\<close> on a JSON value that is no object, the
  \<^verbatim>\<open>TypeError\<close> of \<^verbatim>\<open>len\<close> on a value without a length, the \<^verbatim>\<open>KeyError\<close> of an
  index that an object does not have, the \<^verbatim>\<open>ValueError\<close> of the state machine on an
  unknown status, and any other \<^verbatim>\<open>Exception\<close> with its text.
\<close>

datatype exn =
    ApiException int api_message
  | AttributeError
  | TypeError
  | KeyError
  | ValueError string
  | Exception string

text \<open>
  The sections of the development prompt that vary with the task and the files present
  (\<^verbatim>\<open>_build_development_prompt\<close>); the rest of the prompt is fixed text.
\<close>

record dev_prompt =
  knowledge_file_exists :: bool
  develop_file_exists :: bool
  feedback_section :: "json option"

text \<open>
  What the client does to the outside: a request sent, a sleep of so many seconds, the
  development prompt handed to \<^verbatim>\<open>run_prompt\<close> of the agent.
\<close>

datatype client_event = Sent rpc_request | Slept nat | Prompted dev_prompt

type_synonym 'w client_state = "client_event list \<times> 'w"

text \<open>
  \<^verbatim>\<open>ApiServerRpc._request(method, endpoint, json_data, params, _network_retry_count)\<close>
  over the network \<open>http\<close>, a function of the request and the state of the outside
  world. The \<^verbatim>\<open>except requests.RequestException\<close> catches neither the
  \<^verbatim>\<open>ApiException\<close>s raised in the \<^verbatim>\<open>try\<close> nor the \<^verbatim>\<open>AttributeError\<close>.
\<close>

function request ::
  "(rpc_request \<Rightarrow> 'w \<Rightarrow> http_outcome \<times> 'w) \<Rightarrow> rpc_request \<Rightarrow> nat \<Rightarrow> 'w client_state \<Rightarrow>
   (exn + json) \<times> 'w client_state" where
  "request http req network_retry_count st =
     (case http req (snd st) of
        (HttpResponse status_code body, w') \<Rightarrow>
          (case body of
             None \<Rightarrow> (Inl (ApiException status_code NotJson), (fst st @ [Sent req], w'))
           | Some data \<Rightarrow>
               if status_code \<ge> 400 then
                 (case data of
                    JObj members \<Rightarrow>
                      (Inl (ApiException status_code
                              (case map_of members ''message'' of
                                 Some m \<Rightarrow> ServerMessage m
                               | None \<Rightarrow> RequestFailed)),
                       (fst st @ [Sent req], w'))
                  | _ \<Rightarrow> (Inl AttributeError, (fst st @ [Sent req], w')))
               else (Inr data, (fst st @ [Sent req], w')))
      | (RequestException e, w') \<Rightarrow>
          if network_retry_count < 10 then
            request http req (network_retry_count + 1) (fst st @ [Sent req, Slept 10], w')
          else (Inl (ApiException 0 (RequestError e)), (fst st @ [Sent req], w')))"
  by pat_completeness auto
termination
  by (relation "measure (\<lambda>(http, req, n, st). 10 - n)") auto

declare request.simps [simp del]

text \<open>
  \<^verbatim>\<open>update_task_flow(task_id, flow_status, flow)\<close>: the body always has both keys,
  \<^verbatim>\<open>null\<close> for an argument that is \<^verbatim>\<open>None\<close>. Only \<^verbatim>\<open>ApiException\<close> is caught.
\<close>

definition optional :: "('a \<Rightarrow> json) \<Rightarrow> 'a option \<Rightarrow> json" where
  "optional f v = (case v of None \<Rightarrow> JNull | Some x \<Rightarrow> f x)"

definition flow_update_request ::
  "int \<Rightarrow> string option \<Rightarrow> (string \<times> json) list option \<Rightarrow> rpc_request" where
  "flow_update_request task_id flow_status flow =
     \<lparr>http_method = ''PUT'', path = TaskFlow task_id,
      json_data = Some (JObj [(''flow_status'', optional JStr flow_status),
                              (''flow'', optional JObj flow)]),
      params = None\<rparr>"

definition update_task_flow ::
  "(rpc_request \<Rightarrow> 'w \<Rightarrow> http_outcome \<times> 'w) \<Rightarrow> int \<Rightarrow> string option \<Rightarrow>
   (string \<times> json) list option \<Rightarrow> 'w client_state \<Rightarrow> (exn + bool) \<times> 'w client_state" where
  "update_task_flow http task_id flow_status flow st =
     (case request http (flow_update_request task_id flow_status flow) 0 st of
        (Inr data, st') \<Rightarrow> (Inr True, st')
      | (Inl (ApiException code msg), st') \<Rightarrow> (Inr False, st')
      | (Inl e, st') \<Rightarrow> (Inl e, st'))"

text \<open>
  The task as the worker holds it, with the fields the state machine reads:
  \<^verbatim>\<open>Task.from_dict\<close> takes them from the members of \<^verbatim>\<open>data\<close> with its defaults. The
  server sends \<^verbatim>\<open>id\<close> as a number, \<^verbatim>\<open>flow\<close> as an object and the others as strings;
  a member of another JSON type is read as the default here.
\<close>

record Task =
  task_id :: int
  task_key :: string
  flow :: "(string \<times> json) list"
  flow_status :: string

definition from_dict :: "(string \<times> json) list \<Rightarrow> Task" where
  "from_dict data =
     \<lparr>task_id = (case map_of data ''id'' of Some (JNum n) \<Rightarrow> n | _ \<Rightarrow> 0),
      task_key = (case map_of data ''key'' of Some (JStr s) \<Rightarrow> s | _ \<Rightarrow> []),
      flow = (case map_of data ''flow'' of Some (JObj members) \<Rightarrow> members | _ \<Rightarrow> []),
      flow_status = (case map_of data ''flow_status'' of Some (JStr s) \<Rightarrow> s | _ \<Rightarrow> [])\<rparr>"

text \<open>Python's truth value of a JSON value, for \<^verbatim>\<open>if not data\<close>.\<close>

fun json_truthy :: "json \<Rightarrow> bool" where
  "json_truthy JNull = False"
| "json_truthy (JBool b) = b"
| "json_truthy (JNum n) = (n \<noteq> 0)"
| "json_truthy (JStr s) = (s \<noteq> [])"
| "json_truthy (JArr xs) = (xs \<noteq> [])"
| "json_truthy (JObj members) = (members \<noteq> [])"

text \<open>\<^verbatim>\<open>get_task(task_id)\<close>.\<close>

definition get_task ::
  "(rpc_request \<Rightarrow> 'w \<Rightarrow> http_outcome \<times> 'w) \<Rightarrow> int \<Rightarrow> 'w client_state \<Rightarrow>
   (exn + Task) \<times> 'w client_state" where
  "get_task http tid st =
     (case request http \<lparr>http_method = ''GET'', path = TaskDetail tid, json_data = None,
                          params = None\<rparr> 0 st of
        (Inl e, st') \<Rightarrow> (Inl e, st')
      | (Inr (JObj result), st') \<Rightarrow>
          (case map_of result ''data'' of
             None \<Rightarrow> (Inl (ApiException 404 TaskMissing), st')
           | Some data \<Rightarrow>
               if \<not> json_truthy data then (Inl (ApiException 404 TaskMissing), st')
               else (case data of
                       JObj members \<Rightarrow> (Inr (from_dict members), st')
                     | _ \<Rightarrow> (Inl AttributeError, st')))
      | (Inr _, st') \<Rightarrow> (Inl AttributeError, st'))"

section \<open>Task workflow state machine (clients/worker/base_node.py, task_worker.py)\<close>

text \<open>
  A stage method of a node: it may change the task it holds and the outside world, and
  it returns or raises. The task is returned as the method left it, also when it raised.
\<close>

type_synonym 'w stage = "Task \<Rightarrow> 'w client_state \<Rightarrow> (exn option \<times> Task) \<times> 'w client_state"

text \<open>
  The abstract methods of \<^verbatim>\<open>BaseNode\<close>, with what else a worker is given: the network
  under its transport client, \<^verbatim>\<open>ClientConfig.sync_config\<close>, and Python's \<^verbatim>\<open>str\<close> on
  exceptions.
\<close>

record 'w node =
  network :: "rpc_request \<Rightarrow> 'w \<Rightarrow> http_outcome \<times> 'w"
  before_execute :: "'w stage"
  execute_for_pending :: "'w stage"
  execute_for_revising :: "'w stage"
  execute_for_reviewed :: "'w stage"
  after_execute :: "'w stage"
  sync_config :: "'w client_state \<Rightarrow> exn option \<times> 'w client_state"
  exn_str :: "exn \<Rightarrow> string"

text \<open>
  \<^verbatim>\<open>BaseNode._execute_and_persist\<close>: the intermediate update when the current status
  is not the executing one, the envelope, then flow and next status in one update. The
  results of the updates are not looked at; nothing is caught.
\<close>

definition execute_and_persist ::
  "'w node \<Rightarrow> Task \<Rightarrow> string \<Rightarrow> string \<Rightarrow> string \<Rightarrow> 'w stage \<Rightarrow> 'w client_state \<Rightarrow>
   (exn option \<times> Task) \<times> 'w client_state" where
  "execute_and_persist N task current_status executing_status default_next_status main_executor st =
     (case (if current_status \<noteq> executing_status
            then update_task_flow (network N) (task_id task) (Some executing_status) None st
            else (Inr True, st)) of
        (Inl e, st1) \<Rightarrow> ((Some e, task), st1)
      | (Inr ok, st1) \<Rightarrow>
          (case before_execute N task st1 of
             ((Some e, t1), st2) \<Rightarrow> ((Some e, t1), st2)
           | ((None, t1), st2) \<Rightarrow>
               (case main_executor t1 st2 of
                  ((Some e, t2), st3) \<Rightarrow> ((Some e, t2), st3)
                | ((None, t2), st3) \<Rightarrow>
                    (case after_execute N t2 st3 of
                       ((Some e, t3), st4) \<Rightarrow> ((Some e, t3), st4)
                     | ((None, t3), st4) \<Rightarrow>
                         (case update_task_flow (network N) (task_id t3)
                                 (Some default_next_status) (Some (flow t3)) st4 of
                            (Inl e, st5) \<Rightarrow> ((Some e, t3), st5)
                          | (Inr ok', st5) \<Rightarrow> ((None, t3), st5))))))"

text \<open>\<^verbatim>\<open>BaseNode.execute(trace_id)\<close>.\<close>

definition execute :: "'w node \<Rightarrow> Task \<Rightarrow> 'w client_state \<Rightarrow> (exn option \<times> Task) \<times> 'w client_state" where
  "execute N task st =
     (if flow_status task = ''pending'' \<or> flow_status task = ''running'' then
        execute_and_persist N task (flow_status task) ''running'' ''reviewing''
          (execute_for_pending N) st
      else if flow_status task = ''revising'' then
        execute_and_persist N task (flow_status task) ''revising'' ''reviewing''
          (execute_for_revising N) st
      else if flow_status task = ''reviewed'' then
        execute_and_persist N task (flow_status task) ''reviewed'' ''done''
          (execute_for_reviewed N) st
      else if flow_status task \<in> set [''reviewing'', ''done'', ''error'', ''client_error''] then
        ((None, task), st)
      else ((Some (ValueError (flow_status task)), task), st))"

text \<open>
  \<^verbatim>\<open>d[k] = v\<close> on a dictionary: the value of an existing key is replaced in place, a
  new key is added at the end.
\<close>

fun dict_set :: "string \<Rightarrow> json \<Rightarrow> (string \<times> json) list \<Rightarrow> (string \<times> json) list" where
  "dict_set k v [] = [(k, v)]"
| "dict_set k v (m # ms) = (if fst m = k then (k, v) # ms else m # dict_set k v ms)"

text \<open>
  The \<^verbatim>\<open>except Exception\<close> of \<^verbatim>\<open>TaskWorker.run\<close>: the status and the error text are
  set on the task held, and one update is sent, whose result is not looked at.
\<close>

definition handle_exception ::
  "'w node \<Rightarrow> exn \<Rightarrow> Task \<Rightarrow> 'w client_state \<Rightarrow> (exn option \<times> Task) \<times> 'w client_state" where
  "handle_exception N e task st =
     (let task' = task\<lparr>flow := dict_set ''error'' (JStr (exn_str N e)) (flow task),
                       flow_status := ''client_error''\<rparr>
      in case update_task_flow (network N) (task_id task') (Some ''client_error'')
                (Some (flow task')) st of
           (Inl e', st') \<Rightarrow> ((Some e', task'), st')
         | (Inr ok, st') \<Rightarrow> ((None, task'), st'))"

text \<open>The \<^verbatim>\<open>finally\<close>: five sleeps of a second, the worker not being stopped meanwhile.\<close>

definition interruptible_sleep :: "'w client_state \<Rightarrow> 'w client_state" where
  "interruptible_sleep st = (fst st @ replicate 5 (Slept 1), snd st)"

text \<open>
  One turn of the loop of \<^verbatim>\<open>TaskWorker.run\<close>, from the task held. An exception that
  leaves the handler leaves the loop, after the \<^verbatim>\<open>finally\<close>.
\<close>

definition run_iteration ::
  "'w node \<Rightarrow> Task \<Rightarrow> 'w client_state \<Rightarrow> (exn option \<times> Task) \<times> 'w client_state" where
  "run_iteration N task st =
     (case (case get_task (network N) (task_id task) st of
              (Inl e, st1) \<Rightarrow> handle_exception N e task st1
            | (Inr fetched, st1) \<Rightarrow>
                if contains ''error'' (flow_status fetched) then ((None, fetched), st1)
                else
                  (case sync_config N st1 of
                     (Some e, st2) \<Rightarrow> handle_exception N e fetched st2
                   | (None, st2) \<Rightarrow>
                       (case execute N fetched st2 of
                          ((Some e, t), st3) \<Rightarrow> handle_exception N e t st3
                        | ((None, t), st3) \<Rightarrow> ((None, t), st3)))) of
        (r, st') \<Rightarrow> (r, interruptible_sleep st'))"

text \<open>
  The loop, for the number of turns it makes before \<^verbatim>\<open>stop()\<close> is called from
  outside.
\<close>

fun run_loop ::
  "'w node \<Rightarrow> nat \<Rightarrow> Task \<Rightarrow> 'w client_state \<Rightarrow> (exn option \<times> Task) \<times> 'w client_state" where
  "run_loop N 0 task st = ((None, task), st)"
| "run_loop N (Suc n) task st =
     (case run_iteration N task st of
        ((Some e, t), st') \<Rightarrow> ((Some e, t), st')
      | ((None, t), st') \<Rightarrow> run_loop N n t st')"

subsection \<open>The development stage of the code-development node\<close>

text \<open>
  Python's \<^verbatim>\<open>len(v)\<close> on a JSON value, \<^verbatim>\<open>None\<close> where it raises \<^verbatim>\<open>TypeError\<close>, and
  \<^verbatim>\<open>v[-1]\<close> on a value of positive length: the last element of a list, the last
  character of a string, \<^verbatim>\<open>KeyError\<close> on an object (whose keys are strings).
\<close>

fun py_len :: "json \<Rightarrow> nat option" where
  "py_len (JStr s) = Some (length s)"
| "py_len (JArr xs) = Some (length xs)"
| "py_len (JObj members) = Some (length members)"
| "py_len v = None"

fun py_last :: "json \<Rightarrow> exn + json" where
  "py_last (JStr s) = Inr (JStr [last s])"
| "py_last (JArr xs) = Inr (last xs)"
| "py_last (JObj members) = Inl KeyError"
| "py_last v = Inl TypeError"

text \<open>
  \<^verbatim>\<open>BaseNode.user_feedback\<close>: the content of the last node of \<^verbatim>\<open>flow.nodes\<close> when that
  node has the type \<^verbatim>\<open>user_feedback\<close> (the empty string when it has no content), the
  empty string when it has another type or there is no node. It raises when \<^verbatim>\<open>nodes\<close>
  has no length, or its last element is no object.
\<close>

definition user_feedback :: "Task \<Rightarrow> exn + json" where
  "user_feedback task =
     (let nodes = (case map_of (flow task) ''nodes'' of Some v \<Rightarrow> v | None \<Rightarrow> JArr []) in
      case py_len nodes of
        None \<Rightarrow> Inl TypeError
      | Some n \<Rightarrow>
          if n > 0 then
            (case py_last nodes of
               Inl e \<Rightarrow> Inl e
             | Inr (JObj node) \<Rightarrow>
                 if map_of node ''type'' = Some (JStr ''user_feedback'') then
                   Inr (case map_of node ''content'' of Some v \<Rightarrow> v | None \<Rightarrow> JStr [])
                 else Inr (JStr [])
             | Inr other \<Rightarrow> Inl AttributeError)
          else Inr (JStr []))"

text \<open>
  What the development stage is given besides the task: the property \<^verbatim>\<open>docs_dir\<close>,
  which raises when the documents repository is not configured (\<^verbatim>\<open>docs_git\<close> is
  \<^verbatim>\<open>None\<close>) or its directory is missing and otherwise creates the directory of the
  task; the tests for the knowledge file and the development document; the attribute
  \<^verbatim>\<open>execute_unique_key\<close>, which \<^verbatim>\<open>before_execute\<close> sets; and \<^verbatim>\<open>run_prompt\<close> of the
  agent, which returns success and reply, or raises when the prompt or the reply cannot
  be saved.
\<close>

record 'w develop_env =
  docs_dir :: "'w \<Rightarrow> exn option \<times> 'w"
  knowledge_exists :: "'w \<Rightarrow> bool"
  develop_exists :: "'w \<Rightarrow> bool"
  execute_unique_key :: "'w \<Rightarrow> string option"
  run_prompt :: "dev_prompt \<Rightarrow> 'w \<Rightarrow> (exn + bool \<times> string) \<times> 'w"

text \<open>
  \<^verbatim>\<open>_build_development_prompt\<close>: the path of the development document is read first,
  through \<^verbatim>\<open>docs_dir\<close>; the feedback section is present when \<^verbatim>\<open>user_feedback\<close> is
  true as a condition. The later reads of \<^verbatim>\<open>docs_dir\<close> find the directory the first
  one left.
\<close>

definition build_development_prompt ::
  "'w develop_env \<Rightarrow> Task \<Rightarrow> 'w \<Rightarrow> (exn + dev_prompt) \<times> 'w" where
  "build_development_prompt D task w =
     (case docs_dir D w of
        (Some e, w1) \<Rightarrow> (Inl e, w1)
      | (None, w1) \<Rightarrow>
          (case user_feedback task of
             Inl e \<Rightarrow> (Inl e, w1)
           | Inr feedback \<Rightarrow>
               (Inr \<lparr>knowledge_file_exists = knowledge_exists D w1,
                     develop_file_exists = develop_exists D w1,
                     feedback_section = (if json_truthy feedback then Some feedback else None)\<rparr>,
                w1)))"

text \<open>
  \<^verbatim>\<open>CodeDevelopNode.execute_for_pending\<close>: the prompt is built, the directory of the
  execution record is read (it raises without \<^verbatim>\<open>execute_unique_key\<close>), and
  \<^verbatim>\<open>run_prompt\<close> is called; a reply without success raises. \<^verbatim>\<open>execute_for_revising\<close>
  calls it and does nothing else.
\<close>

definition develop_for_pending :: "'w develop_env \<Rightarrow> 'w stage" where
  "develop_for_pending D task st =
     (case build_development_prompt D task (snd st) of
        (Inl e, w1) \<Rightarrow> ((Some e, task), (fst st, w1))
      | (Inr prompt, w1) \<Rightarrow>
          if \<not> truthy (execute_unique_key D w1) then
            ((Some (Exception ''no execute_unique_key''), task), (fst st, w1))
          else
            (case run_prompt D prompt w1 of
               (Inl e, w2) \<Rightarrow> ((Some e, task), (fst st @ [Prompted prompt], w2))
             | (Inr (ok, reply), w2) \<Rightarrow>
                 ((if \<not> ok then Some (Exception (''Agent failed: '' @ reply)) else None, task),
                  (fst st @ [Prompted prompt], w2))))"

definition develop_for_revising :: "'w develop_env \<Rightarrow> 'w stage" where
  "develop_for_revising D task st = develop_for_pending D task st"

subsection \<open>The transition table\<close>


subsection \<open>The flow update as the server handles it (apiserver/routes/task.py)\<close>






text \<open>A network that answers from a script, and refuses the connection once it is used up.\<close>

definition scripted :: "rpc_request \<Rightarrow> http_outcome list \<Rightarrow> http_outcome \<times> http_outcome list" where
  "scripted req w = (case w of [] \<Rightarrow> (RequestException ''refused'', []) | x # xs \<Rightarrow> (x, xs))"

definition demo_get :: rpc_request where
  "demo_get = \<lparr>http_method = ''GET'', path = TaskDetail 7, json_data = None, params = None\<rparr>"

text \<open>The events of one call: requests with sleeps of ten seconds in between.\<close>

fun retries :: "rpc_request \<Rightarrow> nat \<Rightarrow> client_event list" where
  "retries req 0 = [Sent req]"
| "retries req (Suc k) = Sent req # Slept 10 # retries req k"

subsection \<open>A worker for the examples\<close>

text \<open>
  The outside world of the example worker: the answers the network still has to give,
  and how often the preparation stage has run.
\<close>

record demo_world =
  script :: "http_outcome list"
  stage_runs :: nat

definition demo_network :: "rpc_request \<Rightarrow> demo_world \<Rightarrow> http_outcome \<times> demo_world" where
  "demo_network req w =
     (case script w of
        [] \<Rightarrow> (RequestException ''refused'', w)
      | x # xs \<Rightarrow> (x, w\<lparr>script := xs\<rparr>))"

definition demo_before :: "demo_world stage" where
  "demo_before task st = ((None, task), (fst st, (snd st)\<lparr>stage_runs := stage_runs (snd st) + 1\<rparr>))"

definition demo_failing_before :: "demo_world stage" where
  "demo_failing_before task st =
     ((Some (Exception ''clone failed''), task),
      (fst st, (snd st)\<lparr>stage_runs := stage_runs (snd st) + 1\<rparr>))"

text \<open>
  The development stage of the example worker: the documents directory is there, neither
  file exists, the key of the run is set once the preparation stage has run, and the
  agent succeeds.
\<close>

definition demo_dev_agent :: "dev_prompt \<Rightarrow> 'w \<Rightarrow> (exn + bool \<times> string) \<times> 'w" where
  "demo_dev_agent prompt w = (Inr (True, ''done''), w)"

definition demo_develop_env :: "demo_world develop_env" where
  "demo_develop_env =
     \<lparr>docs_dir = (\<lambda>w. (None, w)), knowledge_exists = (\<lambda>w. False), develop_exists = (\<lambda>w. False),
      execute_unique_key = (\<lambda>w. if stage_runs w > 0 then Some ''20250101_120000'' else None),
      run_prompt = demo_dev_agent\<rparr>"

definition demo_reviewed :: "'w stage" where
  "demo_reviewed task st = ((None, task), st)"

definition demo_after :: "'w stage" where
  "demo_after task st =
     ((None, task\<lparr>flow := dict_set ''nodes''
                             (JArr ((case map_of (flow task) ''nodes'' of
                                       Some (JArr nodes) \<Rightarrow> nodes
                                     | _ \<Rightarrow> []) @
                                    [JObj [(''id'', JStr ''code_develop'')]]))
                             (flow task)\<rparr>), st)"

definition demo_str :: "exn \<Rightarrow> string" where
  "demo_str e = (case e of Exception s \<Rightarrow> s | _ \<Rightarrow> ''error'')"

definition demo_node :: "demo_world node" where
  "demo_node =
     \<lparr>network = demo_network,
      before_execute = demo_before,
      execute_for_pending = develop_for_pending demo_develop_env,
      execute_for_revising = develop_for_revising demo_develop_env,
      execute_for_reviewed = demo_reviewed,
      after_execute = demo_after,
      sync_config = (\<lambda>st. (None, st)),
      exn_str = demo_str\<rparr>"

definition demo_failing_node :: "demo_world node" where
  "demo_failing_node = demo_node\<lparr>before_execute := demo_failing_before\<rparr>"

definition demo_task :: "string \<Rightarrow> Task" where
  "demo_task status = \<lparr>task_id = 7, task_key = ''AbCdEfGh'', flow = [], flow_status = status\<rparr>"

definition ok_response :: http_outcome where
  "ok_response = HttpResponse 200 (Some (JObj [(''code'', JNum 200)]))"

definition task_response :: "string \<Rightarrow> http_outcome" where
  "task_response status =
     HttpResponse 200
       (Some (JObj [(''code'', JNum 200),
                    (''data'', JObj [(''id'', JNum 7), (''key'', JStr ''AbCdEfGh''),
                                     (''flow'', JObj []), (''flow_status'', JStr status)])]))"


text \<open>
  The request of \<open>get_task\<close>, and a network on which the task stays in
  \<open>client_error\<close>: every request is answered with that task.
\<close>

definition task_detail_request :: "int \<Rightarrow> rpc_request" where
  "task_detail_request tid =
     \<lparr>http_method = ''GET'', path = TaskDetail tid, json_data = None, params = None\<rparr>"

definition demo_stuck_network :: "rpc_request \<Rightarrow> demo_world \<Rightarrow> http_outcome \<times> demo_world" where
  "demo_stuck_network req w = (task_response ''client_error'', w)"

definition demo_stuck_node :: "demo_world node" where
  "demo_stuck_node = demo_node\<lparr>network := demo_stuck_network\<rparr>"

definition demo_failing_run :: "demo_world client_state" where
  "demo_failing_run =
     ([], \<lparr>script = [task_response ''running'',
                       HttpResponse 500 (Some (JObj [(''message'', JStr ''db down'')])),
                       task_response ''running'', ok_response],
           stage_runs = 0\<rparr>)"

subsection \<open>A worker on a served network\<close>









section \<open>Verified properties\<close>

subsection \<open>Arbitration: the lease\<close>


lemma update_heartbeat_first:
  "db (u, c) = None \<Longrightarrow>
   update_heartbeat db now u c tok cd =
     (Inr (True, NoMsg), db((u, c) \<mapsto> \<lparr>instance_uuid = tok, last_sync_at = Some now\<rparr>))"
  by (simp add: update_heartbeat_def)

lemma update_heartbeat_same:
  "db (u, c) = Some hb \<Longrightarrow> instance_uuid hb = tok \<Longrightarrow>
   update_heartbeat db now u c tok cd =
     (Inr (True, NoMsg), db((u, c) \<mapsto> hb\<lparr>last_sync_at := Some now\<rparr>))"
  by (simp add: update_heartbeat_def)

lemma update_heartbeat_takeover:
  "db (u, c) = Some hb \<Longrightarrow> instance_uuid hb \<noteq> tok \<Longrightarrow> last_sync_at hb = Some t \<Longrightarrow>
   cd * usec \<le> now - t \<Longrightarrow>
   update_heartbeat db now u c tok cd =
     (Inr (True, NoMsg),
      db((u, c) \<mapsto> hb\<lparr>instance_uuid := tok, last_sync_at := Some now\<rparr>))"
  by (simp add: update_heartbeat_def)

lemma update_heartbeat_cooling:
  "db (u, c) = Some hb \<Longrightarrow> instance_uuid hb \<noteq> tok \<Longrightarrow> last_sync_at hb = Some t \<Longrightarrow>
   now - t < cd * usec \<Longrightarrow>
   update_heartbeat db now u c tok cd =
     (Inr (False, WaitSeconds ((cd * usec - (now - t)) div usec)), db)"
  by (simp add: update_heartbeat_def)

lemma remaining_bounds:
  fixes d :: int
  shows "(d div usec) * usec \<le> d \<and> d < (d div usec + 1) * usec"
proof -
  have "d = (d div usec) * usec + d mod usec" by simp
  moreover have "0 \<le> d mod usec" "d mod usec < usec" by simp_all
  ultimately show ?thesis by (simp add: algebra_simps) linarith
qed

lemma heartbeats_same_token:
  "stored_token db u c = Some tok \<Longrightarrow>
   fst (heartbeats db u c tok cd nows) = replicate (length nows) (Inr (True, NoMsg)) \<and>
   stored_token (snd (heartbeats db u c tok cd nows)) u c = Some tok"
proof (induction nows arbitrary: db)
  case Nil
  then show ?case by simp
next
  case (Cons now nows)
  from Cons.prems obtain hb where hb: "db (u, c) = Some hb" "instance_uuid hb = tok"
    by (auto simp: stored_token_def)
  define db' where "db' = db((u, c) \<mapsto> hb\<lparr>last_sync_at := Some now\<rparr>)"
  have step: "update_heartbeat db now u c tok cd = (Inr (True, NoMsg), db')"
    unfolding db'_def using hb by (rule update_heartbeat_same)
  have "stored_token db' u c = Some tok"
    using hb by (simp add: stored_token_def db'_def)
  from Cons.IH[OF this] show ?case
    by (simp add: step case_prod_beta)
qed

text \<open>
  Claim C1, amended. Every call of \<open>update_heartbeat\<close> falls under the arbitration
  rules: with no lease for \<open>(owner, client)\<close> a lease holding the token and \<open>now\<close> is
  created and the call accepts; with the stored token equal to the given one the
  timestamp is refreshed to \<open>now\<close> and the call accepts; with a different stored token
  and \<open>now - lastSeen\<close> at least the cooldown, token and timestamp are overwritten and
  the call accepts; with a different stored token and \<open>now - lastSeen\<close> below the
  cooldown the call rejects with a hint of the remaining seconds and leaves the table as
  it was. Heartbeats repeated with the stored token all accept and never change the
  stored token.
\<close>

theorem update_heartbeat_arbitration:
  "(db (u, c) = None \<longrightarrow>
      update_heartbeat db now u c tok cd =
        (Inr (True, NoMsg), db((u, c) \<mapsto> \<lparr>instance_uuid = tok, last_sync_at = Some now\<rparr>))) \<and>
   (\<forall>hb. db (u, c) = Some hb \<and> instance_uuid hb = tok \<longrightarrow>
      update_heartbeat db now u c tok cd =
        (Inr (True, NoMsg), db((u, c) \<mapsto> hb\<lparr>last_sync_at := Some now\<rparr>))) \<and>
   (\<forall>hb t. db (u, c) = Some hb \<and> instance_uuid hb \<noteq> tok \<and> last_sync_at hb = Some t \<and>
      cd * usec \<le> now - t \<longrightarrow>
      update_heartbeat db now u c tok cd =
        (Inr (True, NoMsg),
         db((u, c) \<mapsto> hb\<lparr>instance_uuid := tok, last_sync_at := Some now\<rparr>))) \<and>
   (\<forall>hb t. db (u, c) = Some hb \<and> instance_uuid hb \<noteq> tok \<and> last_sync_at hb = Some t \<and>
      now - t < cd * usec \<longrightarrow>
      (\<exists>r. update_heartbeat db now u c tok cd = (Inr (False, WaitSeconds r), db) \<and>
           r * usec \<le> cd * usec - (now - t) \<and> cd * usec - (now - t) < (r + 1) * usec)) \<and>
   (stored_token db u c = Some tok \<longrightarrow>
      fst (heartbeats db u c tok cd nows) = replicate (length nows) (Inr (True, NoMsg)) \<and>
      stored_token (snd (heartbeats db u c tok cd nows)) u c = Some tok)"
proof (intro conjI allI impI)
  assume "db (u, c) = None"
  then show "update_heartbeat db now u c tok cd =
      (Inr (True, NoMsg), db((u, c) \<mapsto> \<lparr>instance_uuid = tok, last_sync_at = Some now\<rparr>))"
    by (rule update_heartbeat_first)
next
  fix hb assume "db (u, c) = Some hb \<and> instance_uuid hb = tok"
  then show "update_heartbeat db now u c tok cd =
      (Inr (True, NoMsg), db((u, c) \<mapsto> hb\<lparr>last_sync_at := Some now\<rparr>))"
    by (simp add: update_heartbeat_same)
next
  fix hb t
  assume "db (u, c) = Some hb \<and> instance_uuid hb \<noteq> tok \<and> last_sync_at hb = Some t \<and>
      cd * usec \<le> now - t"
  then show "update_heartbeat db now u c tok cd =
      (Inr (True, NoMsg), db((u, c) \<mapsto> hb\<lparr>instance_uuid := tok, last_sync_at := Some now\<rparr>))"
    by (simp add: update_heartbeat_takeover)
next
  fix hb t
  assume a: "db (u, c) = Some hb \<and> instance_uuid hb \<noteq> tok \<and> last_sync_at hb = Some t \<and>
      now - t < cd * usec"
  define r where "r = (cd * usec - (now - t)) div usec"
  have "update_heartbeat db now u c tok cd = (Inr (False, WaitSeconds r), db)"
    unfolding r_def using a by (simp add: update_heartbeat_cooling)
  moreover have "r * usec \<le> cd * usec - (now - t) \<and> cd * usec - (now - t) < (r + 1) * usec"
    unfolding r_def by (rule remaining_bounds)
  ultimately show "\<exists>r. update_heartbeat db now u c tok cd = (Inr (False, WaitSeconds r), db) \<and>
      r * usec \<le> cd * usec - (now - t) \<and> cd * usec - (now - t) < (r + 1) * usec"
    by blast
next
  assume "stored_token db u c = Some tok"
  then show "fst (heartbeats db u c tok cd nows) = replicate (length nows) (Inr (True, NoMsg))"
    by (simp add: heartbeats_same_token)
next
  assume "stored_token db u c = Some tok"
  then show "stored_token (snd (heartbeats db u c tok cd nows)) u c = Some tok"
    by (simp add: heartbeats_same_token)
qed

text \<open>
  The five rules at concrete leases (cooldown 60 s): a first heartbeat, a refresh, a
  take-over after 61 s, a rejection after 30.5 s (29 whole seconds remain), and three
  heartbeats of the holder.
\<close>

theorem update_heartbeat_arbitration_witness:
  "fst (update_heartbeat Map.empty 0 1 42 ''u1'' 60) = Inr (True, NoMsg) \<and>
   snd (update_heartbeat Map.empty 0 1 42 ''u1'' 60) (1, 42) =
     Some \<lparr>instance_uuid = ''u1'', last_sync_at = Some 0\<rparr> \<and>
   fst (update_heartbeat demo_lease 5000000 1 42 ''u1'' 60) = Inr (True, NoMsg) \<and>
   snd (update_heartbeat demo_lease 5000000 1 42 ''u1'' 60) (1, 42) =
     Some \<lparr>instance_uuid = ''u1'', last_sync_at = Some 5000000\<rparr> \<and>
   fst (update_heartbeat demo_lease 61000000 1 42 ''u2'' 60) = Inr (True, NoMsg) \<and>
   snd (update_heartbeat demo_lease 61000000 1 42 ''u2'' 60) (1, 42) =
     Some \<lparr>instance_uuid = ''u2'', last_sync_at = Some 61000000\<rparr> \<and>
   fst (update_heartbeat demo_lease 30500000 1 42 ''u2'' 60) = Inr (False, WaitSeconds 29) \<and>
   snd (update_heartbeat demo_lease 30500000 1 42 ''u2'' 60) (1, 42) = demo_lease (1, 42) \<and>
   fst (heartbeats demo_lease 1 42 ''u1'' 60 [1000000, 2000000, 200000000]) =
     [Inr (True, NoMsg), Inr (True, NoMsg), Inr (True, NoMsg)] \<and>
   stored_token (snd (heartbeats demo_lease 1 42 ''u1'' 60 [1000000, 2000000, 200000000])) 1 42 =
     Some ''u1''"
  using update_heartbeat_arbitration [of Map.empty 1 42 0 "''u1''" 60 "[]"]
    update_heartbeat_arbitration [of demo_lease 1 42 5000000 "''u1''" 60 "[1000000, 2000000, 200000000]"]
    update_heartbeat_arbitration [of demo_lease 1 42 61000000 "''u2''" 60 "[]"]
    update_heartbeat_arbitration [of demo_lease 1 42 30500000 "''u2''" 60 "[]"]
  by (simp add: demo_lease_def stored_token_def update_heartbeat_def)

text \<open>
  The claim as stated accepts a different token only when \<open>now - lastSeen\<close> exceeds the
  cooldown and rejects otherwise. At exactly the cooldown (60 s after the lease of \<open>u1\<close>
  was last seen, \<open>now - lastSeen > cooldown\<close> false) the heartbeat of \<open>u2\<close> is
  accepted and the lease is overwritten.
\<close>

theorem update_heartbeat_arbitration_counterexample:
  "\<not> (60 * usec < 60000000 - (0 :: int)) \<and>
   demo_lease (1, 42) = Some \<lparr>instance_uuid = ''u1'', last_sync_at = Some 0\<rparr> \<and>
   fst (update_heartbeat demo_lease 60000000 1 42 ''u2'' 60) = Inr (True, NoMsg) \<and>
   snd (update_heartbeat demo_lease 60000000 1 42 ''u2'' 60) (1, 42) =
     Some \<lparr>instance_uuid = ''u2'', last_sync_at = Some 60000000\<rparr>"
  by (simp add: demo_lease_def update_heartbeat_def)

subsection \<open>Arbitration: fencing\<close>

lemma scenario_B_lease_eq:
  "scenario_B_lease owner =
     Map.empty((owner, 42) \<mapsto> \<lparr>instance_uuid = ''u1'', last_sync_at = Some 0\<rparr>)"
  by (simp add: scenario_B_lease_def update_heartbeat_def)

text \<open>
  Claim C2. Arbitration fencing: with a lease last seen at \<open>T\<close> holding token \<open>a\<close>,
  a heartbeat with another token \<open>b\<close> at \<open>T + d\<close>, \<open>d \<ge> 0\<close>, is rejected when
  \<open>d\<close> is below the cooldown, with a hint \<open>r\<close> that is the remaining time
  \<open>cooldown - d\<close> rounded down to whole seconds, and accepted when \<open>d\<close> is at least
  the cooldown; once \<open>b\<close> is accepted, a heartbeat with the old token \<open>a\<close> that
  follows within the cooldown is rejected. Scenario B: with cooldown 60, \<open>u1\<close> at
  t = 0 is accepted, \<open>u2\<close> at t = 30 is rejected with 30 seconds remaining, and
  \<open>u2\<close> at t = 61 is accepted.
\<close>

theorem heartbeat_fencing:
  assumes "db (u, c) = Some hb" and "instance_uuid hb = a" and "last_sync_at hb = Some T"
    and "b \<noteq> a" and "0 \<le> d"
  shows "(d < cd * usec \<longrightarrow>
           (\<exists>r. update_heartbeat db (T + d) u c b cd = (Inr (False, WaitSeconds r), db) \<and>
                r * usec \<le> cd * usec - d \<and> cd * usec - d < (r + 1) * usec)) \<and>
         (cd * usec \<le> d \<longrightarrow>
           (\<exists>db'. update_heartbeat db (T + d) u c b cd = (Inr (True, NoMsg), db') \<and>
                  stored_token db' u c = Some b \<and>
                  (\<forall>e. 0 \<le> e \<and> e < cd * usec \<longrightarrow>
                     (\<exists>r. update_heartbeat db' (T + d + e) u c a cd =
                            (Inr (False, WaitSeconds r), db'))))) \<and>
         fst (update_heartbeat Map.empty 0 owner 42 ''u1'' 60) = Inr (True, NoMsg) \<and>
         update_heartbeat (scenario_B_lease owner) (30 * usec) owner 42 ''u2'' 60 =
           (Inr (False, WaitSeconds 30), scenario_B_lease owner) \<and>
         fst (update_heartbeat (scenario_B_lease owner) (61 * usec) owner 42 ''u2'' 60) =
           Inr (True, NoMsg)"
proof (intro conjI impI)
  assume lt: "d < cd * usec"
  have ne: "instance_uuid hb \<noteq> b" using assms by simp
  have "T + d - T < cd * usec" using lt by simp
  then have "update_heartbeat db (T + d) u c b cd =
          (Inr (False, WaitSeconds ((cd * usec - d) div usec)), db)"
    using assms(1,3) ne by (simp add: update_heartbeat_def)
  moreover have "((cd * usec - d) div usec) * usec \<le> cd * usec - d \<and>
                 cd * usec - d < ((cd * usec - d) div usec + 1) * usec"
    by (rule remaining_bounds)
  ultimately show "\<exists>r. update_heartbeat db (T + d) u c b cd = (Inr (False, WaitSeconds r), db) \<and>
                r * usec \<le> cd * usec - d \<and> cd * usec - d < (r + 1) * usec"
    by blast
next
  assume ge: "cd * usec \<le> d"
  have ne: "instance_uuid hb \<noteq> b" using assms by simp
  define hb' where "hb' = hb\<lparr>instance_uuid := b, last_sync_at := Some (T + d)\<rparr>"
  define db' where "db' = db((u, c) \<mapsto> hb')"
  have "cd * usec \<le> T + d - T" using ge by simp
  then have acc: "update_heartbeat db (T + d) u c b cd = (Inr (True, NoMsg), db')"
    using assms(1,3) ne by (simp add: update_heartbeat_def db'_def hb'_def)
  have tok: "stored_token db' u c = Some b"
    by (simp add: stored_token_def db'_def hb'_def)
  have rej: "\<exists>r. update_heartbeat db' (T + d + e) u c a cd = (Inr (False, WaitSeconds r), db')"
    if "0 \<le> e \<and> e < cd * usec" for e
  proof -
    have 1: "db' (u, c) = Some hb'" by (simp add: db'_def)
    have 2: "instance_uuid hb' \<noteq> a" using assms(4) by (simp add: hb'_def)
    have 3: "last_sync_at hb' = Some (T + d)" by (simp add: hb'_def)
    have 4: "T + d + e - (T + d) < cd * usec" using that by simp
    from 1 2 3 4 show ?thesis by (simp add: update_heartbeat_def)
  qed
  show "\<exists>db'. update_heartbeat db (T + d) u c b cd = (Inr (True, NoMsg), db') \<and>
                  stored_token db' u c = Some b \<and>
                  (\<forall>e. 0 \<le> e \<and> e < cd * usec \<longrightarrow>
                     (\<exists>r. update_heartbeat db' (T + d + e) u c a cd =
                            (Inr (False, WaitSeconds r), db')))"
    using acc tok rej by blast
next
  show "fst (update_heartbeat Map.empty 0 owner 42 ''u1'' 60) = Inr (True, NoMsg)"
    by (simp add: update_heartbeat_def)
next
  show "update_heartbeat (scenario_B_lease owner) (30 * usec) owner 42 ''u2'' 60 =
           (Inr (False, WaitSeconds 30), scenario_B_lease owner)"
    by (simp add: scenario_B_lease_eq update_heartbeat_def)
next
  show "fst (update_heartbeat (scenario_B_lease owner) (61 * usec) owner 42 ''u2'' 60) =
           Inr (True, NoMsg)"
    by (simp add: scenario_B_lease_eq update_heartbeat_def)
qed

text \<open>
  Fencing at the example lease: rejection after 30 s, take-over after exactly 60 s, and
  the old token rejected one microsecond later.
\<close>

theorem heartbeat_fencing_witness:
  "fst (update_heartbeat demo_lease 30000000 1 42 ''u2'' 60) = Inr (False, WaitSeconds 30) \<and>
   fst (update_heartbeat demo_lease 60000000 1 42 ''u2'' 60) = Inr (True, NoMsg) \<and>
   stored_token (snd (update_heartbeat demo_lease 60000000 1 42 ''u2'' 60)) 1 42 = Some ''u2'' \<and>
   fst (update_heartbeat (snd (update_heartbeat demo_lease 60000000 1 42 ''u2'' 60))
          60000001 1 42 ''u1'' 60) = Inr (False, WaitSeconds 59)"
  using heartbeat_fencing [of demo_lease 1 42 "\<lparr>instance_uuid = ''u1'', last_sync_at = Some 0\<rparr>"
      "''u1''" 0 "''u2''" 30000000 60 1]
    heartbeat_fencing [of demo_lease 1 42 "\<lparr>instance_uuid = ''u1'', last_sync_at = Some 0\<rparr>"
      "''u1''" 0 "''u2''" 60000000 60 1]
  by (simp add: demo_lease_def stored_token_def update_heartbeat_def)

subsection \<open>Arbitration: the gate\<close>

lemma check_instance_uuid_valid_iff:
  "check_instance_uuid_valid db now u c tok cd \<longleftrightarrow>
     (db (u, c) = None \<or>
      (\<exists>hb. db (u, c) = Some hb \<and>
         (instance_uuid hb = tok \<or> last_sync_at hb = None \<or>
          (\<exists>t. last_sync_at hb = Some t \<and> cd * usec \<le> now - t))))"
  by (auto simp: check_instance_uuid_valid_def split: option.splits)

lemma login_required_conflict_iff:
  "secret \<noteq> [] \<Longrightarrow> get_user_by_secret secret = Inr (Some u) \<Longrightarrow> tok \<noteq> [] \<Longrightarrow> cid \<noteq> [] \<Longrightarrow>
   py_int cid = Some c \<Longrightarrow>
   login_required get_user_by_secret py_int token_auth f (Some db) now
     \<lparr>x_client_secret = Some secret, x_instance_uuid = Some tok, x_client_id = Some cid\<rparr> =
     Conflict409 \<longleftrightarrow>
   \<not> check_instance_uuid_valid db now u c tok 60"
  by (simp add: login_required_def truthy_def split: sum.splits)

text \<open>
  Claim C3, amended. \<open>check_instance_uuid_valid\<close> returns true exactly when no lease
  exists, or the stored token equals the given one, or the last sync time is absent or
  at least the cooldown in the past. Under \<open>login_required\<close>, which calls it with the
  cooldown of 60 seconds, a request authenticated by secret that carries an instance
  token and a client id header reading as a client is answered 409, the handler not
  run, exactly when the predicate is false for them. The two routes that check the
  secret themselves, the client configuration and the patch of the default branch, make
  no instance check and never answer 409.
\<close>

theorem instance_gate:
  "(check_instance_uuid_valid db now u c tok cd \<longleftrightarrow>
     (db (u, c) = None \<or>
      (\<exists>hb. db (u, c) = Some hb \<and>
         (instance_uuid hb = tok \<or> last_sync_at hb = None \<or>
          (\<exists>t. last_sync_at hb = Some t \<and> cd * usec \<le> now - t))))) \<and>
   (secret \<noteq> [] \<and> get_user_by_secret secret = Inr (Some u) \<and> tok \<noteq> [] \<and> cid \<noteq> [] \<and>
    py_int cid = Some c \<longrightarrow>
    (login_required get_user_by_secret py_int token_auth f (Some db) now
       \<lparr>x_client_secret = Some secret, x_instance_uuid = Some tok, x_client_id = Some cid\<rparr> =
       Conflict409 \<longleftrightarrow>
     \<not> check_instance_uuid_valid db now u c tok 60)) \<and>
   get_client_config_api get_user_by_secret get_client config req client_id \<noteq> Conflict409 \<and>
   update_repo_default_branch_api get_user_by_secret get_client patch req client_id \<noteq> Conflict409"
proof (intro conjI impI)
  show "check_instance_uuid_valid db now u c tok cd \<longleftrightarrow>
     (db (u, c) = None \<or>
      (\<exists>hb. db (u, c) = Some hb \<and>
         (instance_uuid hb = tok \<or> last_sync_at hb = None \<or>
          (\<exists>t. last_sync_at hb = Some t \<and> cd * usec \<le> now - t))))"
    by (rule check_instance_uuid_valid_iff)
next
  assume "secret \<noteq> [] \<and> get_user_by_secret secret = Inr (Some u) \<and> tok \<noteq> [] \<and> cid \<noteq> [] \<and>
    py_int cid = Some c"
  then show "login_required get_user_by_secret py_int token_auth f (Some db) now
       \<lparr>x_client_secret = Some secret, x_instance_uuid = Some tok, x_client_id = Some cid\<rparr> =
       Conflict409 \<longleftrightarrow>
     \<not> check_instance_uuid_valid db now u c tok 60"
    by (simp add: login_required_conflict_iff)
next
  show "get_client_config_api get_user_by_secret get_client config req client_id \<noteq> Conflict409"
    by (simp add: get_client_config_api_def split: sum.splits option.splits)
next
  show "update_repo_default_branch_api get_user_by_secret get_client patch req client_id \<noteq>
          Conflict409"
    by (simp add: update_repo_default_branch_api_def split: sum.splits option.splits)
qed

text \<open>
  The predicate at the example lease, the worker's request refused under
  \<open>login_required\<close> 30 s after the lease was last seen, and let through after 60 s.
\<close>

theorem instance_gate_witness:
  "\<not> check_instance_uuid_valid demo_lease 30000000 1 42 ''u2'' 60 \<and>
   check_instance_uuid_valid demo_lease 30000000 1 42 ''u1'' 60 \<and>
   check_instance_uuid_valid demo_lease 60000000 1 42 ''u2'' 60 \<and>
   check_instance_uuid_valid demo_lease 30000000 1 43 ''u2'' 60 \<and>
   login_required demo_users demo_py_int demo_token_auth demo_handler (Some demo_lease) 30000000
     demo_request = Conflict409 \<and>
   login_required demo_users demo_py_int demo_token_auth demo_handler (Some demo_lease) 60000000
     demo_request = Handler 1"
  using instance_gate [of demo_lease 30000000 1 42 "''u2''" 60 "''s3cret''" demo_users "''42''"
      demo_py_int demo_token_auth demo_handler]
    instance_gate [of demo_lease 60000000 1 42 "''u2''" 60 "''s3cret''" demo_users "''42''"
      demo_py_int demo_token_auth demo_handler]
  by (simp add: check_instance_uuid_valid_def login_required_def truthy_def demo_lease_def
      demo_users_def demo_py_int_def demo_request_def demo_handler_def)

text \<open>
  The claim as stated fails on the route of the client configuration: 30 s after the
  lease of \<open>u1\<close> was last seen the predicate is false for the instance \<open>u2\<close>, and its
  request for the configuration, with the same headers, is served.
\<close>

theorem instance_gate_counterexample:
  "check_instance_uuid_valid demo_lease 30000000 1 42 ''u2'' 60 = False \<and>
   get_client_config_api demo_users demo_clients demo_config demo_request 42 = Handler 42"
  by (simp add: check_instance_uuid_valid_def get_client_config_api_def truthy_def
      demo_lease_def demo_users_def demo_clients_def demo_config_def demo_request_def)

subsection \<open>Flow update: the frame\<close>

lemma fold_assign_flow_status_only:
  "task_flow (fold assign (build_update_data None fs) row) = task_flow row"
  by (cases fs) (simp_all add: build_update_data_def)

lemma fold_assign_flow_only:
  "task_flow_status (fold assign (build_update_data fl None) row) = task_flow_status row"
  by (cases fl) (simp_all add: build_update_data_def)

lemma dao_update_flow_frame:
  "map_option task_flow (snd (dao_update_task_flow db tid uid None fs) t) =
   map_option task_flow (db t)"
  by (cases "t = tid")
     (auto simp: dao_update_task_flow_def Let_def fold_assign_flow_status_only
           split: option.splits)

lemma dao_update_status_frame:
  "map_option task_flow_status (snd (dao_update_task_flow db tid uid fl None) t) =
   map_option task_flow_status (db t)"
  by (cases "t = tid")
     (auto simp: dao_update_task_flow_def Let_def fold_assign_flow_only
           split: option.splits)


lemma dao_update_written:
  "snd (dao_update_task_flow db tid uid fl fs) t =
     (case db t of
        None \<Rightarrow> None
      | Some row \<Rightarrow>
          if t = tid \<and> task_user_id row = uid
          then Some (row\<lparr>task_flow := (case fl of None \<Rightarrow> task_flow row | Some v \<Rightarrow> Some v),
                         task_flow_status :=
                           (case fs of None \<Rightarrow> task_flow_status row | Some v \<Rightarrow> Some v)\<rparr>)
          else Some row)"
proof (cases "db t")
  case None
  then show ?thesis
    by (auto simp: dao_update_task_flow_def Let_def split: option.splits)
next
  case (Some row)
  show ?thesis
  proof (cases "t = tid \<and> task_user_id row = uid")
    case True
    have "fold assign (build_update_data fl fs) row =
            row\<lparr>task_flow := (case fl of None \<Rightarrow> task_flow row | Some v \<Rightarrow> Some v),
                task_flow_status :=
                  (case fs of None \<Rightarrow> task_flow_status row | Some v \<Rightarrow> Some v)\<rparr>"
      by (cases fl; cases fs) (simp_all add: build_update_data_def)
    with True Some show ?thesis
      by (cases fl; cases fs) (simp_all add: dao_update_task_flow_def Let_def build_update_data_def)
  next
    case False
    with Some show ?thesis
      by (auto simp: dao_update_task_flow_def Let_def split: option.splits)
  qed
qed

lemma update_flow_table:
  "snd (update_flow valid_flow db tid uid fl fs) = db \<or>
   snd (update_flow valid_flow db tid uid fl fs) =
     snd (dao_update_task_flow db tid uid fl fs)"
  by (simp add: update_flow_def)

text \<open>
  Claim C7. Frame property of the flow update: called with only \<open>flow_status\<close> (flow
  \<^verbatim>\<open>None\<close>) it leaves the stored flow document of every task as it was, and called
  with only \<open>flow\<close> it leaves every stored \<open>flow_status\<close> as it was; a row is changed
  only if it has the given id and owner, and then exactly the fields given are written;
  a call with both fields \<^verbatim>\<open>None\<close> changes nothing and reports success. The same
  frame holds through the service function behind the route.
\<close>

theorem update_task_flow_frame:
  "map_option task_flow (snd (dao_update_task_flow db tid uid None fs) t) =
     map_option task_flow (db t) \<and>
   map_option task_flow_status (snd (dao_update_task_flow db tid uid fl None) t) =
     map_option task_flow_status (db t) \<and>
   snd (dao_update_task_flow db tid uid fl fs) t =
     (case db t of
        None \<Rightarrow> None
      | Some row \<Rightarrow>
          if t = tid \<and> task_user_id row = uid
          then Some (row\<lparr>task_flow := (case fl of None \<Rightarrow> task_flow row | Some v \<Rightarrow> Some v),
                         task_flow_status :=
                           (case fs of None \<Rightarrow> task_flow_status row | Some v \<Rightarrow> Some v)\<rparr>)
          else Some row) \<and>
   dao_update_task_flow db tid uid None None = (True, db) \<and>
   map_option task_flow (snd (update_flow valid_flow db tid uid None fs) t) =
     map_option task_flow (db t) \<and>
   map_option task_flow_status (snd (update_flow valid_flow db tid uid fl None) t) =
     map_option task_flow_status (db t)"
proof (intro conjI)
  show "map_option task_flow (snd (dao_update_task_flow db tid uid None fs) t) =
     map_option task_flow (db t)"
    by (rule dao_update_flow_frame)
  show "map_option task_flow_status (snd (dao_update_task_flow db tid uid fl None) t) =
     map_option task_flow_status (db t)"
    by (rule dao_update_status_frame)
  show "snd (dao_update_task_flow db tid uid fl fs) t =
     (case db t of
        None \<Rightarrow> None
      | Some row \<Rightarrow>
          if t = tid \<and> task_user_id row = uid
          then Some (row\<lparr>task_flow := (case fl of None \<Rightarrow> task_flow row | Some v \<Rightarrow> Some v),
                         task_flow_status :=
                           (case fs of None \<Rightarrow> task_flow_status row | Some v \<Rightarrow> Some v)\<rparr>)
          else Some row)"
    by (rule dao_update_written)
  show "dao_update_task_flow db tid uid None None = (True, db)"
    by (simp add: dao_update_task_flow_def build_update_data_def)
  show "map_option task_flow (snd (update_flow valid_flow db tid uid None fs) t) =
     map_option task_flow (db t)"
    using update_flow_table[of valid_flow db tid uid None fs]
    by (auto simp: dao_update_flow_frame)
  show "map_option task_flow_status (snd (update_flow valid_flow db tid uid fl None) t) =
     map_option task_flow_status (db t)"
    using update_flow_table[of valid_flow db tid uid fl None]
    by (auto simp: dao_update_status_frame)
qed

text \<open>
  The frame at the example table: a status-only update, a document-only update, and an
  update by another user, which matches no row.
\<close>

theorem update_task_flow_frame_witness:
  "snd (dao_update_task_flow demo_tasks 7 1 None (Some ''running'')) 7 =
     Some \<lparr>task_user_id = 1, task_flow = Some ''{nodes: []}'',
           task_flow_status = Some ''running''\<rparr> \<and>
   snd (dao_update_task_flow demo_tasks 7 1 (Some ''{nodes: [n]}'') None) 7 =
     Some \<lparr>task_user_id = 1, task_flow = Some ''{nodes: [n]}'',
           task_flow_status = Some ''pending''\<rparr> \<and>
   snd (dao_update_task_flow demo_tasks 7 2 None (Some ''running'')) 7 = demo_tasks 7 \<and>
   fst (dao_update_task_flow demo_tasks 7 2 None (Some ''running'')) = False \<and>
   fst (dao_update_task_flow demo_tasks 7 1 None None) = True"
  using update_task_flow_frame [of demo_tasks 7 1 "Some ''running''" 7 "Some ''{nodes: [n]}''"]
    update_task_flow_frame [of demo_tasks 7 2 "Some ''running''" 7 None]
  by (simp add: demo_tasks_def dao_update_task_flow_def build_update_data_def)

subsection \<open>Sync engine: the rebase conflict\<close>

lemma rebase_and_push_conflict:
  "exec_git E (Rebase (''origin/'' @ default_branch)) (snd st) = ((False, m), w1) \<Longrightarrow>
   exec_git E RebaseAbort w1 = (a, w2) \<Longrightarrow>
   rebase_and_push E dev_branch default_branch st =
     (make_result False ''rebase conflict'',
      (fst st @ [Git (Rebase (''origin/'' @ default_branch)), Git RebaseAbort], w2))"
  by (cases a) (simp add: rebase_and_push_def run_git_command_def make_result_def)

lemma rebase_and_push_ok:
  "exec_git E (Rebase (''origin/'' @ default_branch)) (snd st) = ((True, m), w1) \<Longrightarrow>
   exec_git E (PushForce dev_branch) w1 = ((ok, pm), w2) \<Longrightarrow>
   rebase_and_push E dev_branch default_branch st =
     (if ok then make_result True (''branch '' @ dev_branch @ '' rebased and pushed to the remote'')
      else make_result False (''push failed: '' @ pm),
      (fst st @ [Git (Rebase (''origin/'' @ default_branch)), Git (PushForce dev_branch)], w2))"
  by (simp add: rebase_and_push_def run_git_command_def make_result_def)

lemma checkout_remote_branch_message:
  "checkout_remote_branch E dev_branch st = (Some r, st') \<Longrightarrow> message r \<noteq> ''rebase conflict''"
  by (auto simp: checkout_remote_branch_def run_git_command_def make_result_def
           split: prod.splits if_splits)

lemma create_branch_from_default_message:
  "create_branch_from_default E dev_branch default_branch st = (Some r, st') \<Longrightarrow>
   message r \<noteq> ''rebase conflict''"
  by (auto simp: create_branch_from_default_def run_git_command_def make_result_def
           check_local_branch_exists_def split: prod.splits if_splits)

lemma conflict_in_rebase_conflict: "contains ''conflict'' (lower ''rebase conflict'')"
  by (simp add: lower_def lower_char_def)

lemma sync_repo_dispatch:
  assumes "repo_dir_exists E (snd st)"
    and "sync_and_rebase_branch E work_repo_dir dev_branch default_branch st = (r, st2)"
  shows "sync_repo E work_repo_dir dev_branch default_branch st =
     (if success r then (None, st2)
      else if \<not> contains ''conflict'' (lower (message r)) then
        (Some (work_repo_dir @ '' sync and rebase failed: '' @ message r), st2)
      else
        (case fst (run_agent E (snd st2)) of
           AgentFailed reply \<Rightarrow> Some (''agent failed to handle the rebase conflict: '' @ reply)
         | ReplyObject ok msg \<Rightarrow>
             if \<not> ok then Some (''resolving the conflict failed: '' @ msg) else None
         | ReplyOther \<Rightarrow> Some ''AttributeError: object has no attribute get'',
         (fst st2 @ [AgentPrompt], snd (run_agent E (snd st2)))))"
  using assms by (simp add: sync_repo_def split: prod.splits)

lemma rebase_and_push_outcomes:
  "(fst (snd (rebase_and_push E dev_branch default_branch st)) =
      fst st @ [Git (Rebase (''origin/'' @ default_branch)), Git RebaseAbort] \<and>
    fst (rebase_and_push E dev_branch default_branch st) = make_result False ''rebase conflict'') \<or>
   (fst (snd (rebase_and_push E dev_branch default_branch st)) =
      fst st @ [Git (Rebase (''origin/'' @ default_branch)), Git (PushForce dev_branch)] \<and>
    (success (fst (rebase_and_push E dev_branch default_branch st)) \<or>
     (\<exists>pm. fst (rebase_and_push E dev_branch default_branch st) =
            make_result False (''push failed: '' @ pm))))"
  by (auto simp: rebase_and_push_def run_git_command_def make_result_def
           split: prod.splits if_splits)

lemma checkout_remote_branch_failed:
  "checkout_remote_branch E dev_branch st = (Some r, st') \<Longrightarrow> \<not> success r"
  by (auto simp: checkout_remote_branch_def run_git_command_def make_result_def
           split: prod.splits if_splits)

lemma create_branch_from_default_failed:
  "create_branch_from_default E dev_branch default_branch st = (Some r, st') \<Longrightarrow> \<not> success r"
  by (auto simp: create_branch_from_default_def run_git_command_def make_result_def
           check_local_branch_exists_def split: prod.splits if_splits)

lemma sync_and_rebase_outcomes:
  "(\<exists>evs. fst (snd (sync_and_rebase_branch E repo_dir dev_branch default_branch st)) =
            evs @ [Git (Rebase (''origin/'' @ default_branch)), Git RebaseAbort] \<and>
          fst (sync_and_rebase_branch E repo_dir dev_branch default_branch st) =
            make_result False ''rebase conflict'') \<or>
   (\<exists>evs. fst (snd (sync_and_rebase_branch E repo_dir dev_branch default_branch st)) =
            evs @ [Git (Rebase (''origin/'' @ default_branch)), Git (PushForce dev_branch)] \<and>
          (success (fst (sync_and_rebase_branch E repo_dir dev_branch default_branch st)) \<or>
           (\<exists>pm. fst (sync_and_rebase_branch E repo_dir dev_branch default_branch st) =
                  make_result False (''push failed: '' @ pm)))) \<or>
   (\<not> success (fst (sync_and_rebase_branch E repo_dir dev_branch default_branch st)) \<and>
    message (fst (sync_and_rebase_branch E repo_dir dev_branch default_branch st)) \<noteq>
      ''rebase conflict'')"
proof (cases "repo_dir_exists E (snd st) \<and> git_dir_exists E (snd st)")
  case False
  then show ?thesis
    by (auto simp: sync_and_rebase_branch_def make_result_def)
next
  case True
  obtain fr st1 where f: "run_git_command E Fetch st = (fr, st1)" by (metis prod.exhaust)
  show ?thesis
  proof (cases "success fr")
    case False
    with True f show ?thesis
      by (auto simp: sync_and_rebase_branch_def make_result_def)
  next
    case fok: True
    obtain ex st2 where c: "check_remote_branch_exists E dev_branch st1 = (ex, st2)"
      by (metis prod.exhaust)
    obtain p st3 where prep:
      "(if ex then checkout_remote_branch E dev_branch st2
        else create_branch_from_default E dev_branch default_branch st2) = (p, st3)"
      by (metis prod.exhaust)
    have unfold: "sync_and_rebase_branch E repo_dir dev_branch default_branch st =
        (case p of Some failure \<Rightarrow> (failure, st3)
         | None \<Rightarrow> rebase_and_push E dev_branch default_branch st3)"
      using True f fok c prep by (simp add: sync_and_rebase_branch_def split: option.splits)
    show ?thesis
    proof (cases p)
      case (Some failure)
      then have "message failure \<noteq> ''rebase conflict''" "\<not> success failure"
        using prep checkout_remote_branch_message create_branch_from_default_message
          checkout_remote_branch_failed create_branch_from_default_failed
        by (metis (full_types))+
      with unfold Some show ?thesis by simp
    next
      case None
      with unfold have eq: "sync_and_rebase_branch E repo_dir dev_branch default_branch st =
          rebase_and_push E dev_branch default_branch st3" by simp
      from rebase_and_push_outcomes[of E dev_branch default_branch st3] show ?thesis
        unfolding eq by blast
    qed
  qed
qed

text \<open>
  What the protocol does at the rebase. When \<^verbatim>\<open>git rebase origin/<default>\<close> fails,
  \<^verbatim>\<open>git rebase --abort\<close> is run next and the result is the failure with the message
  \<open>rebase conflict\<close>; when the rebase succeeds, the development branch is force-pushed,
  and a failed push gives the message \<open>push failed: ...\<close>. Every run ends in one of three
  ways: rebase and abort with the conflict result; rebase and forced push with success
  or the push failure; or an earlier failure whose message is not \<open>rebase conflict\<close>.
  The caller \<open>sync_repo\<close> returns on success, raises on a failure whose message does not
  contain \<open>conflict\<close> in any letter case, and otherwise (so for every rebase conflict)
  prompts the agent once; it then raises unless the agent's reply is an object whose
  \<open>success\<close> is true.
\<close>

theorem rebase_conflict_signal:
  "(exec_git E (Rebase (''origin/'' @ default_branch)) (snd st) = ((False, m), w1) \<and>
    exec_git E RebaseAbort w1 = (a, w2) \<longrightarrow>
    rebase_and_push E dev_branch default_branch st =
      (make_result False ''rebase conflict'',
       (fst st @ [Git (Rebase (''origin/'' @ default_branch)), Git RebaseAbort], w2))) \<and>
   (exec_git E (Rebase (''origin/'' @ default_branch)) (snd st) = ((True, m), w1) \<and>
    exec_git E (PushForce dev_branch) w1 = ((ok, pm), w2) \<longrightarrow>
    rebase_and_push E dev_branch default_branch st =
      (if ok
       then make_result True (''branch '' @ dev_branch @ '' rebased and pushed to the remote'')
       else make_result False (''push failed: '' @ pm),
       (fst st @ [Git (Rebase (''origin/'' @ default_branch)), Git (PushForce dev_branch)], w2))) \<and>
   ((\<exists>evs. fst (snd (sync_and_rebase_branch E repo_dir dev_branch default_branch st)) =
            evs @ [Git (Rebase (''origin/'' @ default_branch)), Git RebaseAbort] \<and>
          fst (sync_and_rebase_branch E repo_dir dev_branch default_branch st) =
            make_result False ''rebase conflict'') \<or>
    (\<exists>evs. fst (snd (sync_and_rebase_branch E repo_dir dev_branch default_branch st)) =
            evs @ [Git (Rebase (''origin/'' @ default_branch)), Git (PushForce dev_branch)] \<and>
          (success (fst (sync_and_rebase_branch E repo_dir dev_branch default_branch st)) \<or>
           (\<exists>pm. fst (sync_and_rebase_branch E repo_dir dev_branch default_branch st) =
                  make_result False (''push failed: '' @ pm)))) \<or>
    (\<not> success (fst (sync_and_rebase_branch E repo_dir dev_branch default_branch st)) \<and>
     message (fst (sync_and_rebase_branch E repo_dir dev_branch default_branch st)) \<noteq>
       ''rebase conflict'')) \<and>
   (repo_dir_exists E (snd st) \<and>
    sync_and_rebase_branch E repo_dir dev_branch default_branch st = (r, st2) \<longrightarrow>
    sync_repo E repo_dir dev_branch default_branch st =
      (if success r then (None, st2)
       else if \<not> contains ''conflict'' (lower (message r)) then
         (Some (repo_dir @ '' sync and rebase failed: '' @ message r), st2)
       else
         (case fst (run_agent E (snd st2)) of
            AgentFailed reply \<Rightarrow> Some (''agent failed to handle the rebase conflict: '' @ reply)
          | ReplyObject ok msg \<Rightarrow>
              if \<not> ok then Some (''resolving the conflict failed: '' @ msg) else None
          | ReplyOther \<Rightarrow> Some ''AttributeError: object has no attribute get'',
          (fst st2 @ [AgentPrompt], snd (run_agent E (snd st2)))))) \<and>
   contains ''conflict'' (lower ''rebase conflict'')"
proof (intro conjI impI)
  assume "exec_git E (Rebase (''origin/'' @ default_branch)) (snd st) = ((False, m), w1) \<and>
    exec_git E RebaseAbort w1 = (a, w2)"
  then show "rebase_and_push E dev_branch default_branch st =
      (make_result False ''rebase conflict'',
       (fst st @ [Git (Rebase (''origin/'' @ default_branch)), Git RebaseAbort], w2))"
    using rebase_and_push_conflict[of E default_branch st m w1 a w2 dev_branch] by blast
next
  assume "exec_git E (Rebase (''origin/'' @ default_branch)) (snd st) = ((True, m), w1) \<and>
    exec_git E (PushForce dev_branch) w1 = ((ok, pm), w2)"
  then show "rebase_and_push E dev_branch default_branch st =
      (if ok
       then make_result True (''branch '' @ dev_branch @ '' rebased and pushed to the remote'')
       else make_result False (''push failed: '' @ pm),
       (fst st @ [Git (Rebase (''origin/'' @ default_branch)), Git (PushForce dev_branch)], w2))"
    using rebase_and_push_ok[of E default_branch st m w1 dev_branch ok pm w2] by blast
next
  show "(\<exists>evs. fst (snd (sync_and_rebase_branch E repo_dir dev_branch default_branch st)) =
            evs @ [Git (Rebase (''origin/'' @ default_branch)), Git RebaseAbort] \<and>
          fst (sync_and_rebase_branch E repo_dir dev_branch default_branch st) =
            make_result False ''rebase conflict'') \<or>
    (\<exists>evs. fst (snd (sync_and_rebase_branch E repo_dir dev_branch default_branch st)) =
            evs @ [Git (Rebase (''origin/'' @ default_branch)), Git (PushForce dev_branch)] \<and>
          (success (fst (sync_and_rebase_branch E repo_dir dev_branch default_branch st)) \<or>
           (\<exists>pm. fst (sync_and_rebase_branch E repo_dir dev_branch default_branch st) =
                  make_result False (''push failed: '' @ pm)))) \<or>
    (\<not> success (fst (sync_and_rebase_branch E repo_dir dev_branch default_branch st)) \<and>
     message (fst (sync_and_rebase_branch E repo_dir dev_branch default_branch st)) \<noteq>
       ''rebase conflict'')"
    by (rule sync_and_rebase_outcomes)
next
  assume "repo_dir_exists E (snd st) \<and>
    sync_and_rebase_branch E repo_dir dev_branch default_branch st = (r, st2)"
  then show "sync_repo E repo_dir dev_branch default_branch st =
      (if success r then (None, st2)
       else if \<not> contains ''conflict'' (lower (message r)) then
         (Some (repo_dir @ '' sync and rebase failed: '' @ message r), st2)
       else
         (case fst (run_agent E (snd st2)) of
            AgentFailed reply \<Rightarrow> Some (''agent failed to handle the rebase conflict: '' @ reply)
          | ReplyObject ok msg \<Rightarrow>
              if \<not> ok then Some (''resolving the conflict failed: '' @ msg) else None
          | ReplyOther \<Rightarrow> Some ''AttributeError: object has no attribute get'',
          (fst st2 @ [AgentPrompt], snd (run_agent E (snd st2)))))"
    using sync_repo_dispatch[of E st repo_dir dev_branch default_branch r st2] by blast
next
  show "contains ''conflict'' (lower ''rebase conflict'')"
    by (rule conflict_in_rebase_conflict)
qed

lemmas demo_sync_defs =
  sync_repo_def sync_and_rebase_branch_def rebase_and_push_def checkout_remote_branch_def
  create_branch_from_default_def check_remote_branch_exists_def check_local_branch_exists_def
  run_git_command_def make_result_def demo_env_def demo_agent_def lower_def lower_char_def

text \<open>
  On the example working copy whose rebase stops: rebase, abort, the conflict result,
  the agent prompted, and the stage failing on its negative reply. On the one whose
  rebase goes through: the forced push.
\<close>

theorem rebase_conflict_signal_witness:
  "sync_and_rebase_branch demo_env ''/w/app'' ''ai_7'' ''main'' ([], demo_conflict_repo) =
     (make_result False ''rebase conflict'',
      ([Git Fetch, Git (LsRemoteHeads ''ai_7''), Git (Checkout ''ai_7''),
        Git (ResetHard ''origin/ai_7''), Git (Rebase ''origin/main''), Git RebaseAbort],
       demo_conflict_repo)) \<and>
   sync_repo demo_env ''/w/app'' ''ai_7'' ''main'' ([], demo_conflict_repo) =
     (Some ''resolving the conflict failed: unresolved'',
      ([Git Fetch, Git (LsRemoteHeads ''ai_7''), Git (Checkout ''ai_7''),
        Git (ResetHard ''origin/ai_7''), Git (Rebase ''origin/main''), Git RebaseAbort,
        AgentPrompt], demo_conflict_repo)) \<and>
   sync_repo demo_env ''/w/app'' ''ai_7'' ''main'' ([], demo_repo) =
     (None,
      ([Git Fetch, Git (LsRemoteHeads ''ai_7''), Git (Checkout ''ai_7''),
        Git (ResetHard ''origin/ai_7''), Git (Rebase ''origin/main''), Git (PushForce ''ai_7'')],
       demo_repo))"
  using rebase_conflict_signal [of demo_env "''main''" "([], demo_conflict_repo)"
      "''could not apply 5f3a9c''" demo_conflict_repo "(True, [])" demo_conflict_repo "''ai_7''"
      True "[]" "''/w/app''" "make_result False ''rebase conflict''"
      "([Git Fetch, Git (LsRemoteHeads ''ai_7''), Git (Checkout ''ai_7''),
        Git (ResetHard ''origin/ai_7''), Git (Rebase ''origin/main''), Git RebaseAbort],
       demo_conflict_repo)"]
  by (simp add: demo_sync_defs demo_conflict_repo_def demo_repo_def)

text \<open>
  Claim C8: only the failure signalled as a rebase conflict is handed to the agent, any
  other failure of the synchronisation fails the stage. The code departs from it, since
  \<open>sync_repo\<close> looks for the word \<open>conflict\<close> anywhere in the failure message. On the
  working copy whose fetch fails with git's hint at \<open>conflicting\<close> branches, the
  protocol stops after the fetch, with a failure that is not \<open>rebase conflict\<close> and
  with no rebase run; the caller nevertheless prompts the agent with the instructions for
  a rebase conflict, and when the agent replies success the stage goes on, nothing
  fetched, checked out, rebased or pushed.
\<close>

theorem sync_repo_fetch_failure_reaches_agent:
  "fst (snd (sync_and_rebase_branch demo_env ''/w/app'' ''ai_7'' ''main''
               ([], demo_fetch_failure_repo))) = [Git Fetch] \<and>
   success (fst (sync_and_rebase_branch demo_env ''/w/app'' ''ai_7'' ''main''
               ([], demo_fetch_failure_repo))) = False \<and>
   message (fst (sync_and_rebase_branch demo_env ''/w/app'' ''ai_7'' ''main''
               ([], demo_fetch_failure_repo))) \<noteq> ''rebase conflict'' \<and>
   sync_repo demo_env ''/w/app'' ''ai_7'' ''main'' ([], demo_fetch_failure_repo) =
     (Some ''resolving the conflict failed: unresolved'',
      ([Git Fetch, AgentPrompt], demo_fetch_failure_repo)) \<and>
   sync_repo (demo_env\<lparr>run_agent := demo_agreeing_agent\<rparr>) ''/w/app'' ''ai_7'' ''main''
       ([], demo_fetch_failure_repo) =
     (None, ([Git Fetch, AgentPrompt], demo_fetch_failure_repo))"
  by (simp add: demo_sync_defs demo_fetch_failure_repo_def demo_agreeing_agent_def)

subsection \<open>Sync engine: commit and push\<close>

lemma run_git_command_eq:
  "exec_git E cmd (snd st) = ((ok, msg), w') \<Longrightarrow>
   run_git_command E cmd st = (make_result ok msg, (fst st @ [Git cmd], w'))"
  by (simp add: run_git_command_def)

lemma check_diff_events:
  "\<exists>evs. fst (snd (check_diff_with_default_branch E d st)) = fst st @ evs \<and>
         (\<forall>e \<in> set evs. \<not> writes e \<and> (e = Git RevParseHead \<or> (\<exists>r. e = Git (RevListCount r))))"
  by (auto simp: check_diff_with_default_branch_def Let_def run_git_command_def make_result_def
           split: prod.splits option.splits)

lemma check_diff_returns:
  assumes counts: "\<forall>range w out w'. exec_git E (RevListCount range) w = ((True, out), w') \<longrightarrow>
                     parse_int E (strip out) \<noteq> None"
  shows "\<exists>diff. fst (check_diff_with_default_branch E d st) = Inr diff"
  using counts
  by (fastforce simp: check_diff_with_default_branch_def Let_def run_git_command_def make_result_def
           split: prod.splits option.splits)

lemma nothing_to_commit:
  assumes dirs: "repo_dir_exists E (snd st)" "git_dir_exists E (snd st)"
    and status: "exec_git E StatusPorcelain (snd st) = ((True, out), w1)" "strip out = []"
    and counts: "\<forall>range w out w'. exec_git E (RevListCount range) w = ((True, out), w') \<longrightarrow>
                     parse_int E (strip out) \<noteq> None"
  shows "\<exists>diff evs w'.
           commit_and_push_changes E repo_dir commit_msg default_branch st =
             (\<lparr>success = True, message = ''nothing to commit'', diff_message = diff\<rparr>,
              (fst st @ Git StatusPorcelain # evs, w')) \<and>
           (\<forall>e \<in> set evs. \<not> writes e \<and> (e = Git RevParseHead \<or> (\<exists>r. e = Git (RevListCount r))))"
proof -
  let ?st1 = "(fst st @ [Git StatusPorcelain], w1)"
  have r: "run_git_command E StatusPorcelain st = (make_result True out, ?st1)"
    using status(1) by (rule run_git_command_eq)
  obtain diff where d: "fst (check_diff_with_default_branch E default_branch ?st1) = Inr diff"
    using check_diff_returns[OF counts] by blast
  obtain evs where ev: "fst (snd (check_diff_with_default_branch E default_branch ?st1)) =
      fst ?st1 @ evs" "\<forall>e \<in> set evs. \<not> writes e \<and> (e = Git RevParseHead \<or> (\<exists>r. e = Git (RevListCount r)))"
    using check_diff_events by blast
  obtain log' w' where s: "snd (check_diff_with_default_branch E default_branch ?st1) = (log', w')"
    by (metis prod.exhaust)
  have l: "log' = fst st @ Git StatusPorcelain # evs" using ev(1) s by simp
  have c: "check_diff_with_default_branch E default_branch ?st1 = (Inr diff, (log', w'))"
    using d s by (metis prod.collapse)
  have "commit_and_push_changes E repo_dir commit_msg default_branch st =
          (\<lparr>success = True, message = ''nothing to commit'', diff_message = diff\<rparr>, (log', w'))"
    using dirs status(2) by (simp add: commit_and_push_changes_def r make_result_def c)
  with l ev(2) show ?thesis by blast
qed

lemma demo_counts:
  "\<forall>range w out w'. exec_git demo_env (RevListCount range) w = ((True, out), w') \<longrightarrow>
     parse_int demo_env (strip out) \<noteq> None"
  by (auto simp: demo_env_def show_count_def demo_int_def strip_def is_space_def)

text \<open>
  Claim C9. Commit-and-push idempotence. In an existing working copy, when
  \<^verbatim>\<open>git status --porcelain\<close> succeeds with blank output, \<open>commit_and_push_changes\<close>
  returns success with the message that there is nothing to commit and the informational
  count of commits ahead; after the status it runs only the commands reading the branch
  name and the count, none that stages, commits or pushes. Hence a second call in a row, finding no changes, reports nothing to commit
  and pushes nothing. The count is read with \<^verbatim>\<open>int\<close>: the output of a successful
  \<^verbatim>\<open>git rev-list --count\<close> is assumed to be a number.
\<close>

theorem commit_and_push_idempotent:
  assumes counts: "\<forall>range w out w'. exec_git E (RevListCount range) w = ((True, out), w') \<longrightarrow>
                     parse_int E (strip out) \<noteq> None"
  shows "(repo_dir_exists E (snd st) \<and> git_dir_exists E (snd st) \<and>
          exec_git E StatusPorcelain (snd st) = ((True, out), w1) \<and> strip out = [] \<longrightarrow>
          (\<exists>diff evs w'.
             commit_and_push_changes E repo_dir commit_msg default_branch st =
               (\<lparr>success = True, message = ''nothing to commit'', diff_message = diff\<rparr>,
                (fst st @ Git StatusPorcelain # evs, w')) \<and>
             (\<forall>e \<in> set evs. \<not> writes e \<and> (e = Git RevParseHead \<or> (\<exists>r. e = Git (RevListCount r)))))) \<and>
         (\<forall>st1 out1 w2.
            st1 = snd (commit_and_push_changes E repo_dir commit_msg default_branch st) \<and>
            repo_dir_exists E (snd st1) \<and> git_dir_exists E (snd st1) \<and>
            exec_git E StatusPorcelain (snd st1) = ((True, out1), w2) \<and> strip out1 = [] \<longrightarrow>
            (\<exists>diff evs w'.
               commit_and_push_changes E repo_dir commit_msg' default_branch st1 =
                 (\<lparr>success = True, message = ''nothing to commit'', diff_message = diff\<rparr>,
                  (fst st1 @ Git StatusPorcelain # evs, w')) \<and>
               (\<forall>e \<in> set evs. \<not> writes e \<and> (e = Git RevParseHead \<or> (\<exists>r. e = Git (RevListCount r))))))"
proof (intro conjI allI impI)
  assume "repo_dir_exists E (snd st) \<and> git_dir_exists E (snd st) \<and>
          exec_git E StatusPorcelain (snd st) = ((True, out), w1) \<and> strip out = []"
  then show "\<exists>diff evs w'.
             commit_and_push_changes E repo_dir commit_msg default_branch st =
               (\<lparr>success = True, message = ''nothing to commit'', diff_message = diff\<rparr>,
                (fst st @ Git StatusPorcelain # evs, w')) \<and>
             (\<forall>e \<in> set evs. \<not> writes e \<and> (e = Git RevParseHead \<or> (\<exists>r. e = Git (RevListCount r))))"
    using nothing_to_commit[of E st out w1 repo_dir commit_msg default_branch] counts by blast
next
  fix st1 out1 w2
  assume "st1 = snd (commit_and_push_changes E repo_dir commit_msg default_branch st) \<and>
            repo_dir_exists E (snd st1) \<and> git_dir_exists E (snd st1) \<and>
            exec_git E StatusPorcelain (snd st1) = ((True, out1), w2) \<and> strip out1 = []"
  then show "\<exists>diff evs w'.
               commit_and_push_changes E repo_dir commit_msg' default_branch st1 =
                 (\<lparr>success = True, message = ''nothing to commit'', diff_message = diff\<rparr>,
                  (fst st1 @ Git StatusPorcelain # evs, w')) \<and>
               (\<forall>e \<in> set evs. \<not> writes e \<and> (e = Git RevParseHead \<or> (\<exists>r. e = Git (RevListCount r))))"
    using nothing_to_commit[of E st1 out1 w2 repo_dir commit_msg' default_branch] counts by blast
qed

text \<open>
  Two calls in a row on the example working copy: the first stages, commits and pushes,
  the second reports nothing to commit, with one commit ahead of \<open>main\<close>, and runs the
  status, the branch name and the count only.
\<close>

theorem commit_and_push_idempotent_witness:
  "fst (commit_and_push_changes demo_env ''/w/app'' ''feat: x'' ''main'' ([], demo_repo)) =
     \<lparr>success = True, message = ''committed and pushed: ai_7'',
      diff_message = CommitsAhead 1 ''main''\<rparr> \<and>
   fst (snd (commit_and_push_changes demo_env ''/w/app'' ''feat: x'' ''main'' ([], demo_repo))) =
     [Git StatusPorcelain, Git AddAll, Git (Commit ''feat: x''), Git RevParseHead,
      Git (Push ''ai_7''), Git RevParseHead, Git (RevListCount ''origin/main..ai_7'')] \<and>
   fst (commit_and_push_changes demo_env ''/w/app'' ''feat: y'' ''main''
          (snd (commit_and_push_changes demo_env ''/w/app'' ''feat: x'' ''main'' ([], demo_repo)))) =
     \<lparr>success = True, message = ''nothing to commit'',
      diff_message = CommitsAhead 1 ''main''\<rparr> \<and>
   fst (snd (commit_and_push_changes demo_env ''/w/app'' ''feat: y'' ''main''
          (snd (commit_and_push_changes demo_env ''/w/app'' ''feat: x'' ''main'' ([], demo_repo))))) =
     [Git StatusPorcelain, Git AddAll, Git (Commit ''feat: x''), Git RevParseHead,
      Git (Push ''ai_7''), Git RevParseHead, Git (RevListCount ''origin/main..ai_7'')] @
     [Git StatusPorcelain, Git RevParseHead, Git (RevListCount ''origin/main..ai_7'')] \<and>
   commit_and_push_changes demo_env ''/w/app'' ''feat: x'' ''main''
       ([], demo_repo\<lparr>tree_dirty := False\<rparr>) =
     (\<lparr>success = True, message = ''nothing to commit'', diff_message = NoDiff\<rparr>,
      ([Git StatusPorcelain, Git RevParseHead, Git (RevListCount ''origin/main..ai_7'')],
       demo_repo\<lparr>tree_dirty := False\<rparr>))"
  using commit_and_push_idempotent [OF demo_counts,
      of "([], demo_repo)" "[]" "demo_repo\<lparr>tree_dirty := False\<rparr>" "''/w/app''" "''feat: x''" "''main''"
         "''feat: y''"]
    commit_and_push_idempotent [OF demo_counts,
      of "([], demo_repo\<lparr>tree_dirty := False\<rparr>)" "[]" "demo_repo\<lparr>tree_dirty := False\<rparr>"
         "''/w/app''" "''feat: x''" "''main''" "''feat: y''"]
  by (simp add: commit_and_push_changes_def stage_commit_push_def
      check_diff_with_default_branch_def run_git_command_def make_result_def demo_env_def
      demo_repo_def show_count_def demo_int_def strip_def is_space_def Let_def)

subsection \<open>Transport: retries and errors\<close>

lemma request_api_error:
  "http req (snd st) = (HttpResponse code (Some (JObj members)), w') \<Longrightarrow> 400 \<le> code \<Longrightarrow>
   request http req n st =
     (Inl (ApiException code
            (case map_of members ''message'' of Some m \<Rightarrow> ServerMessage m | None \<Rightarrow> RequestFailed)),
      (fst st @ [Sent req], w'))"
  by (subst request.simps) simp

lemma request_not_json:
  "http req (snd st) = (HttpResponse code None, w') \<Longrightarrow>
   request http req n st = (Inl (ApiException code NotJson), (fst st @ [Sent req], w'))"
  by (subst request.simps) simp


lemma request_retry:
  "http req (snd st) = (RequestException e, w') \<Longrightarrow> n < 10 \<Longrightarrow>
   request http req n st = request http req (Suc n) (fst st @ [Sent req, Slept 10], w')"
  by (subst request.simps) simp

lemma request_exhausted:
  "http req (snd st) = (RequestException e, w') \<Longrightarrow> 10 \<le> n \<Longrightarrow>
   request http req n st = (Inl (ApiException 0 (RequestError e)), (fst st @ [Sent req], w'))"
  by (subst request.simps) simp

lemma request_events:
  "\<exists>k. k \<le> 10 - n \<and> fst (snd (request http req n st)) = fst st @ retries req k \<and>
       ((\<exists>c e. fst (request http req n st) = Inl (ApiException c (RequestError e))) \<longrightarrow>
        k = 10 - n)"
proof (induction http req n st rule: request.induct)
  case (1 http req n st)
  obtain out w' where h: "http req (snd st) = (out, w')" by (metis prod.exhaust)
  show ?case
  proof (cases out)
    case (RequestException e)
    show ?thesis
    proof (cases "n < 10")
      case True
      from "1.IH"[OF h[symmetric] RequestException True]
      obtain k where k: "k \<le> 10 - (n + 1)"
        "fst (snd (request http req (n + 1) (fst st @ [Sent req, Slept 10], w'))) =
           fst (fst st @ [Sent req, Slept 10], w') @ retries req k"
        "(\<exists>c e. fst (request http req (n + 1) (fst st @ [Sent req, Slept 10], w')) =
                  Inl (ApiException c (RequestError e))) \<longrightarrow> k = 10 - (n + 1)"
        by blast
      have eq: "request http req n st =
                request http req (Suc n) (fst st @ [Sent req, Slept 10], w')"
        using h RequestException True by (simp add: request_retry)
      have "fst (snd (request http req n st)) = fst st @ retries req (Suc k)"
        using k(2) eq by simp
      moreover have "Suc k \<le> 10 - n" using k(1) True by simp
      moreover have "(\<exists>c e. fst (request http req n st) = Inl (ApiException c (RequestError e)))
                       \<longrightarrow> Suc k = 10 - n"
        using k(3) eq True by auto
      ultimately show ?thesis by blast
    next
      case False
      then have "request http req n st =
          (Inl (ApiException 0 (RequestError e)), (fst st @ [Sent req], w'))"
        using h RequestException by (simp add: request_exhausted)
      with False show ?thesis by (intro exI[of _ 0]) simp
    qed
  next
    case (HttpResponse code body)
    then have "fst (snd (request http req n st)) = fst st @ [Sent req] \<and>
               (\<forall>c e. fst (request http req n st) \<noteq> Inl (ApiException c (RequestError e)))"
      using h by (subst request.simps, subst request.simps)
                 (simp split: option.splits json.splits)
    then show ?thesis by (intro exI[of _ 0]) simp
  qed
qed

text \<open>
  Claim C6, amended. For every transport call: a connection-level exception is followed
  by a sleep of 10 seconds and a new attempt, up to 10 retries (so at most 11 requests,
  ten seconds apart), and is surfaced as the failure \<open>ApiException 0\<close> only when the
  retries are used up; a response with status at least 400 whose body parses as a JSON
  object raises \<open>ApiException\<close> with the status code and the \<open>message\<close> of the body (a
  default text when the body has none), and a response whose body does not parse as
  JSON raises \<open>ApiException\<close> with the status code at once; neither is retried.
\<close>

theorem request_retry_policy:
  "(http req (snd st) = (RequestException e, w') \<and> n < 10 \<longrightarrow>
      request http req n st = request http req (Suc n) (fst st @ [Sent req, Slept 10], w')) \<and>
   (http req (snd st) = (RequestException e, w') \<and> 10 \<le> n \<longrightarrow>
      request http req n st =
        (Inl (ApiException 0 (RequestError e)), (fst st @ [Sent req], w'))) \<and>
   (http req (snd st) = (HttpResponse code (Some (JObj members)), w') \<and> 400 \<le> code \<longrightarrow>
      request http req n st =
        (Inl (ApiException code
               (case map_of members ''message'' of
                  Some m \<Rightarrow> ServerMessage m
                | None \<Rightarrow> RequestFailed)),
         (fst st @ [Sent req], w'))) \<and>
   (http req (snd st) = (HttpResponse code None, w') \<longrightarrow>
      request http req n st = (Inl (ApiException code NotJson), (fst st @ [Sent req], w'))) \<and>
   (\<exists>k. k \<le> 10 \<and> fst (snd (request http req 0 st)) = fst st @ retries req k \<and>
        ((\<exists>c e. fst (request http req 0 st) = Inl (ApiException c (RequestError e))) \<longrightarrow>
         k = 10))"
proof (intro conjI impI)
  assume "http req (snd st) = (RequestException e, w') \<and> n < 10"
  then show "request http req n st =
      request http req (Suc n) (fst st @ [Sent req, Slept 10], w')"
    by (simp add: request_retry)
next
  assume "http req (snd st) = (RequestException e, w') \<and> 10 \<le> n"
  then show "request http req n st =
      (Inl (ApiException 0 (RequestError e)), (fst st @ [Sent req], w'))"
    by (simp add: request_exhausted)
next
  assume "http req (snd st) = (HttpResponse code (Some (JObj members)), w') \<and> 400 \<le> code"
  then show "request http req n st =
      (Inl (ApiException code
             (case map_of members ''message'' of
                Some m \<Rightarrow> ServerMessage m
              | None \<Rightarrow> RequestFailed)),
       (fst st @ [Sent req], w'))"
    by (simp add: request_api_error)
next
  assume "http req (snd st) = (HttpResponse code None, w')"
  then show "request http req n st =
      (Inl (ApiException code NotJson), (fst st @ [Sent req], w'))"
    by (rule request_not_json)
next
  show "\<exists>k. k \<le> 10 \<and> fst (snd (request http req 0 st)) = fst st @ retries req k \<and>
        ((\<exists>c e. fst (request http req 0 st) = Inl (ApiException c (RequestError e))) \<longrightarrow>
         k = 10)"
    using request_events[of 0 http req st] by simp
qed

text \<open>
  On scripted networks: a timeout, then a 404 with a message; a 502 whose body is no
  JSON; a network that refuses every connection (11 requests, 10 sleeps); and ten
  timeouts before an answer, which is still returned.
\<close>

theorem request_retry_policy_witness:
  "request scripted demo_get 0
     ([], [RequestException ''timeout'',
           HttpResponse 404 (Some (JObj [(''code'', JNum 404),
                                          (''message'', JStr ''no such task'')]))]) =
     (Inl (ApiException 404 (ServerMessage (JStr ''no such task''))),
      ([Sent demo_get, Slept 10, Sent demo_get], [])) \<and>
   request scripted demo_get 0 ([], [HttpResponse 502 None]) =
     (Inl (ApiException 502 NotJson), ([Sent demo_get], [])) \<and>
   request scripted demo_get 0 ([], []) =
     (Inl (ApiException 0 (RequestError ''refused'')), (retries demo_get 10, [])) \<and>
   request scripted demo_get 0
     ([], [RequestException ''timeout'', RequestException ''timeout'',
           RequestException ''timeout'', RequestException ''timeout'',
           RequestException ''timeout'', RequestException ''timeout'',
           RequestException ''timeout'', RequestException ''timeout'',
           RequestException ''timeout'', RequestException ''timeout'',
           HttpResponse 200 (Some (JObj [(''code'', JNum 200)]))]) =
     (Inr (JObj [(''code'', JNum 200)]), (retries demo_get 10, []))"
  using request_retry_policy [of scripted demo_get
      "([], [RequestException ''timeout'',
             HttpResponse 404 (Some (JObj [(''code'', JNum 404),
                                            (''message'', JStr ''no such task'')]))])"
      "''timeout''"
      "[HttpResponse 404 (Some (JObj [(''code'', JNum 404),
                                       (''message'', JStr ''no such task'')]))]" 0]
    request_retry_policy [of scripted demo_get "([], [HttpResponse 502 None])" _ "[]" 0 502]
  by (simp add: request.simps scripted_def eval_nat_numeral)

text \<open>
  The claim as stated fails for a body that parses as JSON but is no object: on a 500
  with the body \<open>[]\<close> the call raises \<open>AttributeError\<close>, not the typed error.
\<close>

theorem request_retry_policy_counterexample:
  "request scripted demo_get 0 ([], [HttpResponse 500 (Some (JArr []))]) =
     (Inl AttributeError, ([Sent demo_get], []))"
  by (simp add: request.simps scripted_def)

subsection \<open>Transport: the flow update never raises an API error\<close>

lemma update_task_flow_no_api_error:
  "fst (update_task_flow http tid fs fl st) \<noteq> Inl (ApiException code msg)"
  by (auto simp: update_task_flow_def split: prod.splits sum.splits exn.splits)

lemma update_task_flow_failed:
  "request http (flow_update_request tid fs fl) 0 st = (Inl (ApiException code msg), st') \<Longrightarrow>
   update_task_flow http tid fs fl st = (Inr False, st')"
  by (simp add: update_task_flow_def)

lemma update_task_flow_done:
  "request http (flow_update_request tid fs fl) 0 st = (Inr data, st') \<Longrightarrow>
   update_task_flow http tid fs fl st = (Inr True, st')"
  by (simp add: update_task_flow_def)


lemma update_task_flow_rejected:
  "http (flow_update_request tid fs fl) (snd st) = (HttpResponse code (Some (JObj members)), w') \<Longrightarrow>
   400 \<le> code \<Longrightarrow>
   update_task_flow http tid fs fl st =
     (Inr False, (fst st @ [Sent (flow_update_request tid fs fl)], w'))"
  by (simp add: update_task_flow_def request_api_error)

lemma handle_exception_dropped:
  "update_task_flow (network N) (task_id task) (Some ''client_error'')
     (Some (dict_set ''error'' (JStr (exn_str N e)) (flow task))) st = (Inr ok, st') \<Longrightarrow>
   handle_exception N e task st =
     ((None, task\<lparr>flow := dict_set ''error'' (JStr (exn_str N e)) (flow task),
                  flow_status := ''client_error''\<rparr>), st')"
  by (simp add: handle_exception_def Let_def)

lemma run_iteration_failed_stage:
  "get_task (network N) (task_id task) st = (Inr fetched, st1) \<Longrightarrow>
   \<not> contains ''error'' (flow_status fetched) \<Longrightarrow>
   sync_config N st1 = (None, st2) \<Longrightarrow>
   execute N fetched st2 = ((Some e, t), st3) \<Longrightarrow>
   run_iteration N task st =
     (fst (handle_exception N e t st3), interruptible_sleep (snd (handle_exception N e t st3)))"
  by (simp add: run_iteration_def split: prod.splits)

lemma map_of_dict_set: "map_of (dict_set k v d) k = Some v"
  by (induction d) auto

lemmas demo_worker_defs =
  run_iteration_def handle_exception_def execute_def execute_and_persist_def get_task_def
  update_task_flow_def flow_update_request_def optional_def from_dict_def interruptible_sleep_def
  demo_node_def demo_failing_node_def demo_network_def demo_before_def demo_failing_before_def
  demo_after_def demo_reviewed_def demo_dev_agent_def demo_str_def demo_task_def
  ok_response_def task_response_def develop_for_pending_def develop_for_revising_def
  build_development_prompt_def user_feedback_def demo_develop_env_def truthy_def
  request.simps Let_def

text \<open>
  Claim C10. The flow update of the transport never lets an \<open>ApiException\<close> through:
  when the request raises one (a status of 400 or more, or the retries used up) it
  returns \<^verbatim>\<open>False\<close>, and it returns \<^verbatim>\<open>True\<close> when the request returns. So a failed
  persist is dropped: the handler of the run loop, whose update of \<open>client_error\<close>
  fails, ends normally after that one call, and the turn of the loop goes on to its
  sleep with no exception.
\<close>

theorem update_task_flow_swallows_api_errors:
  "fst (update_task_flow http tid fs fl st) \<noteq> Inl (ApiException code msg) \<and>
   (request http (flow_update_request tid fs fl) 0 st = (Inl (ApiException code msg), st') \<longrightarrow>
      update_task_flow http tid fs fl st = (Inr False, st')) \<and>
   (request http (flow_update_request tid fs fl) 0 st = (Inr data, st') \<longrightarrow>
      update_task_flow http tid fs fl st = (Inr True, st')) \<and>
   (http (flow_update_request tid fs fl) (snd st) = (HttpResponse code (Some (JObj members)), w') \<and>
    400 \<le> code \<longrightarrow>
      update_task_flow http tid fs fl st =
        (Inr False, (fst st @ [Sent (flow_update_request tid fs fl)], w'))) \<and>
   (update_task_flow (network N) (task_id task) (Some ''client_error'')
      (Some (dict_set ''error'' (JStr (exn_str N e)) (flow task))) cst = (Inr False, cst') \<longrightarrow>
      handle_exception N e task cst =
        ((None, task\<lparr>flow := dict_set ''error'' (JStr (exn_str N e)) (flow task),
                     flow_status := ''client_error''\<rparr>), cst')) \<and>
   (get_task (network N) (task_id held) cst = (Inr fetched, st1) \<and>
    \<not> contains ''error'' (flow_status fetched) \<and>
    sync_config N st1 = (None, st2) \<and>
    execute N fetched st2 = ((Some e, task), st3) \<and>
    update_task_flow (network N) (task_id task) (Some ''client_error'')
      (Some (dict_set ''error'' (JStr (exn_str N e)) (flow task))) st3 = (Inr False, st4) \<longrightarrow>
      run_iteration N held cst =
        ((None, task\<lparr>flow := dict_set ''error'' (JStr (exn_str N e)) (flow task),
                     flow_status := ''client_error''\<rparr>), interruptible_sleep st4))"
proof (intro conjI impI)
  show "fst (update_task_flow http tid fs fl st) \<noteq> Inl (ApiException code msg)"
    by (rule update_task_flow_no_api_error)
next
  assume "request http (flow_update_request tid fs fl) 0 st = (Inl (ApiException code msg), st')"
  then show "update_task_flow http tid fs fl st = (Inr False, st')"
    by (rule update_task_flow_failed)
next
  assume "request http (flow_update_request tid fs fl) 0 st = (Inr data, st')"
  then show "update_task_flow http tid fs fl st = (Inr True, st')"
    by (rule update_task_flow_done)
next
  assume "http (flow_update_request tid fs fl) (snd st) =
            (HttpResponse code (Some (JObj members)), w') \<and> 400 \<le> code"
  then show "update_task_flow http tid fs fl st =
        (Inr False, (fst st @ [Sent (flow_update_request tid fs fl)], w'))"
    by (simp add: update_task_flow_rejected)
next
  assume "update_task_flow (network N) (task_id task) (Some ''client_error'')
      (Some (dict_set ''error'' (JStr (exn_str N e)) (flow task))) cst = (Inr False, cst')"
  then show "handle_exception N e task cst =
        ((None, task\<lparr>flow := dict_set ''error'' (JStr (exn_str N e)) (flow task),
                     flow_status := ''client_error''\<rparr>), cst')"
    by (rule handle_exception_dropped)
next
  assume a: "get_task (network N) (task_id held) cst = (Inr fetched, st1) \<and>
    \<not> contains ''error'' (flow_status fetched) \<and>
    sync_config N st1 = (None, st2) \<and>
    execute N fetched st2 = ((Some e, task), st3) \<and>
    update_task_flow (network N) (task_id task) (Some ''client_error'')
      (Some (dict_set ''error'' (JStr (exn_str N e)) (flow task))) st3 = (Inr False, st4)"
  then have "update_task_flow (network N) (task_id task) (Some ''client_error'')
      (Some (dict_set ''error'' (JStr (exn_str N e)) (flow task))) st3 = (Inr False, st4)"
    by simp
  then have "handle_exception N e task st3 =
        ((None, task\<lparr>flow := dict_set ''error'' (JStr (exn_str N e)) (flow task),
                     flow_status := ''client_error''\<rparr>), st4)"
    by (rule handle_exception_dropped)
  with a show "run_iteration N held cst =
        ((None, task\<lparr>flow := dict_set ''error'' (JStr (exn_str N e)) (flow task),
                     flow_status := ''client_error''\<rparr>), interruptible_sleep st4)"
    using run_iteration_failed_stage[of N held cst fetched st1 st2 e task st3] by simp
qed

text \<open>
  The update refused with a 500, and dropped by a network that is down (after 11
  requests); then a turn of the loop whose stage fails and whose persist of
  \<open>client_error\<close> is refused: it ends with no exception.
\<close>

theorem update_task_flow_swallows_api_errors_witness:
  "update_task_flow scripted 7 (Some ''client_error'') None
     ([], [HttpResponse 500 (Some (JObj [(''message'', JStr ''db down'')]))]) =
     (Inr False, ([Sent (flow_update_request 7 (Some ''client_error'') None)], [])) \<and>
   update_task_flow scripted 7 (Some ''client_error'') None ([], []) =
     (Inr False, (retries (flow_update_request 7 (Some ''client_error'') None) 10, [])) \<and>
   update_task_flow scripted 7 (Some ''reviewing'') None ([], [ok_response]) =
     (Inr True, ([Sent (flow_update_request 7 (Some ''reviewing'') None)], [])) \<and>
   fst (run_iteration demo_failing_node (demo_task ''running'')
          ([], \<lparr>script = [task_response ''running'',
                           HttpResponse 500 (Some (JObj [(''message'', JStr ''db down'')]))],
                stage_runs = 0\<rparr>)) =
     (None, \<lparr>task_id = 7, task_key = ''AbCdEfGh'', flow = [(''error'', JStr ''clone failed'')],
             flow_status = ''client_error''\<rparr>)"
  using update_task_flow_swallows_api_errors [of scripted 7 "Some ''client_error''" None
      "([], [HttpResponse 500 (Some (JObj [(''message'', JStr ''db down'')]))])" 500
      "ServerMessage (JStr ''db down'')"
      "([Sent (flow_update_request 7 (Some ''client_error'') None)], [])" "JNull"
      "[(''message'', JStr ''db down'')]" "[]"]
  by (simp add: demo_worker_defs scripted_def eval_nat_numeral)

subsection \<open>State machine: stage failures\<close>


lemma execute_and_persist_raises:
  assumes "(if cur \<noteq> exe
            then update_task_flow (network N) (task_id task) (Some exe) None st
            else (Inr True, st)) = (Inr ok, st1)"
  shows "(before_execute N task st1 = ((Some e, t1), st2) \<longrightarrow>
            execute_and_persist N task cur exe nxt main st = ((Some e, t1), st2)) \<and>
         (before_execute N task st1 = ((None, t1), st2) \<and> main t1 st2 = ((Some e, t2), st3) \<longrightarrow>
            execute_and_persist N task cur exe nxt main st = ((Some e, t2), st3)) \<and>
         (before_execute N task st1 = ((None, t1), st2) \<and> main t1 st2 = ((None, t2), st3) \<and>
          after_execute N t2 st3 = ((Some e, t3), st4) \<longrightarrow>
            execute_and_persist N task cur exe nxt main st = ((Some e, t3), st4))"
  using assms by (simp add: execute_and_persist_def)


lemma get_task_events:
  "\<exists>k. fst (snd (get_task http tid st)) = fst st @ retries (task_detail_request tid) k"
proof -
  obtain k where
    "fst (snd (request http (task_detail_request tid) 0 st)) =
       fst st @ retries (task_detail_request tid) k"
    using request_events[of 0 http "task_detail_request tid" st] by blast
  moreover have "snd (get_task http tid st) = snd (request http (task_detail_request tid) 0 st)"
    by (simp add: get_task_def task_detail_request_def
          split: prod.splits sum.splits json.splits option.splits)
  ultimately show ?thesis by auto
qed

lemma retries_events:
  "ev \<in> set (retries req k) \<Longrightarrow> ev = Sent req \<or> ev = Slept 10"
  by (induction k) auto

lemma run_iteration_skip:
  "get_task (network N) (task_id held) st = (Inr fetched, st1) \<Longrightarrow>
   contains ''error'' (flow_status fetched) \<Longrightarrow>
   run_iteration N held st = ((None, fetched), interruptible_sleep st1)"
  by (simp add: run_iteration_def)

lemma run_loop_stuck:
  assumes stuck: "\<forall>st0. \<exists>fetched st1. get_task (network N) tid st0 = (Inr fetched, st1) \<and>
                     task_id fetched = tid \<and> contains ''error'' (flow_status fetched)"
    and net: "network N' = network N"
  shows "task_id held = tid \<Longrightarrow>
         fst (fst (run_loop N n held st)) = None \<and>
         run_loop N' n held st = run_loop N n held st \<and>
         (\<exists>evs. fst (snd (run_loop N n held st)) = fst st @ evs \<and>
                (\<forall>ev \<in> set evs. ev = Sent (task_detail_request tid) \<or> ev = Slept 10 \<or>
                                 ev = Slept 1))"
proof (induction n arbitrary: held st)
  case 0
  then show ?case by simp
next
  case (Suc n)
  obtain fetched st1 where g: "get_task (network N) tid st = (Inr fetched, st1)"
    "task_id fetched = tid" "contains ''error'' (flow_status fetched)"
    using stuck by blast
  have it: "run_iteration N held st = ((None, fetched), interruptible_sleep st1)"
    using g Suc.prems by (simp add: run_iteration_skip)
  have it': "run_iteration N' held st = ((None, fetched), interruptible_sleep st1)"
    using g Suc.prems net by (simp add: run_iteration_skip)
  obtain k where k: "fst st1 = fst st @ retries (task_detail_request tid) k"
    using get_task_events[of "network N" tid st] g(1) by auto
  have sl: "fst (interruptible_sleep st1) =
            fst st @ retries (task_detail_request tid) k @ replicate 5 (Slept 1)"
    using k by (simp add: interruptible_sleep_def)
  from Suc.IH[OF g(2), of "interruptible_sleep st1"]
  obtain evs where ih:
    "fst (fst (run_loop N n fetched (interruptible_sleep st1))) = None"
    "run_loop N' n fetched (interruptible_sleep st1) = run_loop N n fetched (interruptible_sleep st1)"
    "fst (snd (run_loop N n fetched (interruptible_sleep st1))) =
       fst (interruptible_sleep st1) @ evs"
    "\<forall>ev \<in> set evs. ev = Sent (task_detail_request tid) \<or> ev = Slept 10 \<or> ev = Slept 1"
    by blast
  have "fst (snd (run_loop N (Suc n) held st)) =
          fst st @ (retries (task_detail_request tid) k @ replicate 5 (Slept 1) @ evs)"
    using it ih(3) sl by simp
  moreover have "\<forall>ev \<in> set (retries (task_detail_request tid) k @ replicate 5 (Slept 1) @ evs).
          ev = Sent (task_detail_request tid) \<or> ev = Slept 10 \<or> ev = Slept 1"
    using ih(4) retries_events by auto
  ultimately show ?case using it it' ih(1,2) by auto
qed

lemma demo_stuck:
  "\<forall>st0. \<exists>fetched st1. get_task (network demo_stuck_node) 7 st0 = (Inr fetched, st1) \<and>
      task_id fetched = 7 \<and> contains ''error'' (flow_status fetched)"
  by (simp add: demo_stuck_node_def demo_stuck_network_def demo_node_def get_task_def
        request.simps task_response_def from_dict_def)

text \<open>
  Claim C5, amended. The state machine catches nothing: an exception raised by the
  preparation, the main executor or the collection of artifacts leaves
  \<open>execute_and_persist\<close>, which every active row of \<open>execute\<close> is. The run loop catches
  it, sets \<open>client_error\<close> and the exception's text under \<open>flow.error\<close> on the task it
  holds, and sends one update carrying both. A turn of the loop whose fetched task has a
  \<open>flow_status\<close> containing \<open>error\<close> runs no stage and sends no update; as long as every
  fetch returns such a status, the loop only fetches and sleeps, whatever the stage
  methods are.
\<close>

theorem stage_failure_becomes_client_error:
  "((if cur \<noteq> exe then update_task_flow (network N) (task_id task) (Some exe) None st
     else (Inr True, st)) = (Inr ok, st1) \<longrightarrow>
      (before_execute N task st1 = ((Some e, t1), st2) \<longrightarrow>
         execute_and_persist N task cur exe nxt main st = ((Some e, t1), st2)) \<and>
      (before_execute N task st1 = ((None, t1), st2) \<and> main t1 st2 = ((Some e, t2), st3) \<longrightarrow>
         execute_and_persist N task cur exe nxt main st = ((Some e, t2), st3)) \<and>
      (before_execute N task st1 = ((None, t1), st2) \<and> main t1 st2 = ((None, t2), st3) \<and>
       after_execute N t2 st3 = ((Some e, t3), st4) \<longrightarrow>
         execute_and_persist N task cur exe nxt main st = ((Some e, t3), st4))) \<and>
   (flow_status task = ''pending'' \<longrightarrow>
      execute N task st =
        execute_and_persist N task ''pending'' ''running'' ''reviewing'' (execute_for_pending N) st) \<and>
   (flow_status task = ''running'' \<longrightarrow>
      execute N task st =
        execute_and_persist N task ''running'' ''running'' ''reviewing'' (execute_for_pending N) st) \<and>
   (flow_status task = ''revising'' \<longrightarrow>
      execute N task st =
        execute_and_persist N task ''revising'' ''revising'' ''reviewing''
          (execute_for_revising N) st) \<and>
   (flow_status task = ''reviewed'' \<longrightarrow>
      execute N task st =
        execute_and_persist N task ''reviewed'' ''reviewed'' ''done'' (execute_for_reviewed N) st) \<and>
   (get_task (network N) (task_id held) st = (Inr fetched, st1) \<and>
    \<not> contains ''error'' (flow_status fetched) \<and> sync_config N st1 = (None, st2) \<and>
    execute N fetched st2 = ((Some e, t3), st3) \<longrightarrow>
      run_iteration N held st =
        (fst (handle_exception N e t3 st3),
         interruptible_sleep (snd (handle_exception N e t3 st3)))) \<and>
   handle_exception N e task st =
     (case update_task_flow (network N) (task_id task) (Some ''client_error'')
             (Some (dict_set ''error'' (JStr (exn_str N e)) (flow task))) st of
        (Inl e', st') \<Rightarrow>
          ((Some e', task\<lparr>flow := dict_set ''error'' (JStr (exn_str N e)) (flow task),
                          flow_status := ''client_error''\<rparr>), st')
      | (Inr ok, st') \<Rightarrow>
          ((None, task\<lparr>flow := dict_set ''error'' (JStr (exn_str N e)) (flow task),
                       flow_status := ''client_error''\<rparr>), st')) \<and>
   map_of (dict_set ''error'' (JStr (exn_str N e)) (flow task)) ''error'' =
     Some (JStr (exn_str N e)) \<and>
   (get_task (network N) (task_id held) st = (Inr fetched, st1) \<and>
    contains ''error'' (flow_status fetched) \<longrightarrow>
      run_iteration N held st = ((None, fetched), interruptible_sleep st1)) \<and>
   ((\<forall>st0. \<exists>fetched st1. get_task (network N) tid st0 = (Inr fetched, st1) \<and>
        task_id fetched = tid \<and> contains ''error'' (flow_status fetched)) \<and>
    network N' = network N \<and> task_id held = tid \<longrightarrow>
      fst (fst (run_loop N n held st)) = None \<and>
      run_loop N' n held st = run_loop N n held st \<and>
      (\<exists>evs. fst (snd (run_loop N n held st)) = fst st @ evs \<and>
             (\<forall>ev \<in> set evs. ev = Sent (task_detail_request tid) \<or> ev = Slept 10 \<or>
                              ev = Slept 1)))"
proof (intro conjI)
  show "(if cur \<noteq> exe then update_task_flow (network N) (task_id task) (Some exe) None st
     else (Inr True, st)) = (Inr ok, st1) \<longrightarrow>
      (before_execute N task st1 = ((Some e, t1), st2) \<longrightarrow>
         execute_and_persist N task cur exe nxt main st = ((Some e, t1), st2)) \<and>
      (before_execute N task st1 = ((None, t1), st2) \<and> main t1 st2 = ((Some e, t2), st3) \<longrightarrow>
         execute_and_persist N task cur exe nxt main st = ((Some e, t2), st3)) \<and>
      (before_execute N task st1 = ((None, t1), st2) \<and> main t1 st2 = ((None, t2), st3) \<and>
       after_execute N t2 st3 = ((Some e, t3), st4) \<longrightarrow>
         execute_and_persist N task cur exe nxt main st = ((Some e, t3), st4))"
    using execute_and_persist_raises[of cur exe N task st ok st1 e t1 st2 nxt main t2 st3 t3 st4]
    by blast
  show "flow_status task = ''pending'' \<longrightarrow>
      execute N task st =
        execute_and_persist N task ''pending'' ''running'' ''reviewing'' (execute_for_pending N) st"
    by (simp add: execute_def)
  show "flow_status task = ''running'' \<longrightarrow>
      execute N task st =
        execute_and_persist N task ''running'' ''running'' ''reviewing'' (execute_for_pending N) st"
    by (simp add: execute_def)
  show "flow_status task = ''revising'' \<longrightarrow>
      execute N task st =
        execute_and_persist N task ''revising'' ''revising'' ''reviewing''
          (execute_for_revising N) st"
    by (simp add: execute_def)
  show "flow_status task = ''reviewed'' \<longrightarrow>
      execute N task st =
        execute_and_persist N task ''reviewed'' ''reviewed'' ''done'' (execute_for_reviewed N) st"
    by (simp add: execute_def)
  show "get_task (network N) (task_id held) st = (Inr fetched, st1) \<and>
    \<not> contains ''error'' (flow_status fetched) \<and> sync_config N st1 = (None, st2) \<and>
    execute N fetched st2 = ((Some e, t3), st3) \<longrightarrow>
      run_iteration N held st =
        (fst (handle_exception N e t3 st3),
         interruptible_sleep (snd (handle_exception N e t3 st3)))"
    using run_iteration_failed_stage[of N held st fetched st1 st2 e t3 st3] by blast
  show "handle_exception N e task st =
     (case update_task_flow (network N) (task_id task) (Some ''client_error'')
             (Some (dict_set ''error'' (JStr (exn_str N e)) (flow task))) st of
        (Inl e', st') \<Rightarrow>
          ((Some e', task\<lparr>flow := dict_set ''error'' (JStr (exn_str N e)) (flow task),
                          flow_status := ''client_error''\<rparr>), st')
      | (Inr ok, st') \<Rightarrow>
          ((None, task\<lparr>flow := dict_set ''error'' (JStr (exn_str N e)) (flow task),
                       flow_status := ''client_error''\<rparr>), st'))"
    by (simp add: handle_exception_def Let_def split: prod.splits sum.splits)
  show "map_of (dict_set ''error'' (JStr (exn_str N e)) (flow task)) ''error'' =
     Some (JStr (exn_str N e))"
    by (rule map_of_dict_set)
  show "get_task (network N) (task_id held) st = (Inr fetched, st1) \<and>
    contains ''error'' (flow_status fetched) \<longrightarrow>
      run_iteration N held st = ((None, fetched), interruptible_sleep st1)"
    by (simp add: run_iteration_skip)
  show "(\<forall>st0. \<exists>fetched st1. get_task (network N) tid st0 = (Inr fetched, st1) \<and>
        task_id fetched = tid \<and> contains ''error'' (flow_status fetched)) \<and>
    network N' = network N \<and> task_id held = tid \<longrightarrow>
      fst (fst (run_loop N n held st)) = None \<and>
      run_loop N' n held st = run_loop N n held st \<and>
      (\<exists>evs. fst (snd (run_loop N n held st)) = fst st @ evs \<and>
             (\<forall>ev \<in> set evs. ev = Sent (task_detail_request tid) \<or> ev = Slept 10 \<or>
                              ev = Slept 1))"
    using run_loop_stuck[of N tid N' held n st] by blast
qed

text \<open>
  A turn of the example worker whose preparation fails while the server accepts the
  update: \<open>client_error\<close> and the text are sent in one update. And two turns on the
  network that keeps answering \<open>client_error\<close>: two fetches, no stage.
\<close>

theorem stage_failure_becomes_client_error_witness:
  "run_iteration demo_failing_node (demo_task ''running'')
     ([], \<lparr>script = [task_response ''running'', ok_response], stage_runs = 0\<rparr>) =
     ((None, \<lparr>task_id = 7, task_key = ''AbCdEfGh'', flow = [(''error'', JStr ''clone failed'')],
              flow_status = ''client_error''\<rparr>),
      ([Sent (task_detail_request 7),
        Sent (flow_update_request 7 (Some ''client_error'')
                (Some [(''error'', JStr ''clone failed'')])),
        Slept 1, Slept 1, Slept 1, Slept 1, Slept 1],
       \<lparr>script = [], stage_runs = 1\<rparr>)) \<and>
   run_loop demo_stuck_node 2 (demo_task ''running'') ([], \<lparr>script = [], stage_runs = 0\<rparr>) =
     ((None, \<lparr>task_id = 7, task_key = ''AbCdEfGh'', flow = [], flow_status = ''client_error''\<rparr>),
      ([Sent (task_detail_request 7), Slept 1, Slept 1, Slept 1, Slept 1, Slept 1,
        Sent (task_detail_request 7), Slept 1, Slept 1, Slept 1, Slept 1, Slept 1],
       \<lparr>script = [], stage_runs = 0\<rparr>))"
  using stage_failure_becomes_client_error [where N = demo_stuck_node and tid = 7
      and held = "demo_task ''running''" and N' = demo_failing_node and n = 2
      and st = "([], \<lparr>script = [], stage_runs = 0\<rparr>)"] demo_stuck
  by (simp add: demo_worker_defs demo_stuck_node_def demo_stuck_network_def
      task_detail_request_def eval_nat_numeral)

text \<open>
  The claim as stated fails: when the update of \<open>client_error\<close> is refused by the
  server, the task is still \<open>running\<close> at the next fetch and the failed stage runs
  again, in the second turn of the loop.
\<close>

theorem stage_failure_becomes_client_error_counterexample:
  "stage_runs (snd (snd (run_loop demo_failing_node 1 (demo_task ''running'') demo_failing_run))) = 1 \<and>
   stage_runs (snd (snd (run_loop demo_failing_node 2 (demo_task ''running'') demo_failing_run))) = 2 \<and>
   fst (snd (run_loop demo_failing_node 2 (demo_task ''running'') demo_failing_run)) =
     [Sent (task_detail_request 7),
      Sent (flow_update_request 7 (Some ''client_error'')
              (Some [(''error'', JStr ''clone failed'')])),
      Slept 1, Slept 1, Slept 1, Slept 1, Slept 1,
      Sent (task_detail_request 7),
      Sent (flow_update_request 7 (Some ''client_error'')
              (Some [(''error'', JStr ''clone failed'')])),
      Slept 1, Slept 1, Slept 1, Slept 1, Slept 1]"
  by (simp add: demo_worker_defs demo_failing_run_def task_detail_request_def eval_nat_numeral)

subsection \<open>State machine: the transition table\<close>

lemma flow_update_body:
  "json_data (flow_update_request tid (Some nxt) (Some fl)) =
     Some (JObj [(''flow_status'', JStr nxt), (''flow'', JObj fl)])"
  by (simp add: flow_update_request_def optional_def)












end
